theory Spec2Isabelle
  imports Complex_Main "HOL-Library.Word"
begin

section \<open>Data model of homing.cpp\<close>

text \<open>
  The joint states that \<^verbatim>\<open>homing()\<close> switches on. The enumeration itself is declared in a
  header that is not among the sources; these are the seven values the file names.
\<close>

datatype jointState =
    jstate_wait
  | jstate_not_ready
  | jstate_pos_unknown
  | jstate_hard_stop
  | jstate_homing1
  | jstate_homing2
  | jstate_ready

text \<open>The arm-type tag of a mechanism, compared in \<^verbatim>\<open>set_joints_known_pos\<close>.\<close>

datatype arm = GOLD_ARM | GREEN_ARM

text \<open>
  \<^verbatim>\<open>struct DOF\<close>, restricted to the fields homing.cpp reads or writes. The C \<^verbatim>\<open>float\<close>
  fields have the type parameter \<open>'f\<close>: the file copies them and stores the constant 0 in
  them, and every arithmetic operation on them is taken from the environment (see
  \<open>ext\<close> below), so nothing is assumed about rounding. \<^verbatim>\<open>type\<close> indexes the per-type
  tables and is a natural number. \<^verbatim>\<open>current_cmd\<close>, \<^verbatim>\<open>enc_val\<close> and \<^verbatim>\<open>enc_offset\<close> are C
  integers (the file prints them with \<^verbatim>\<open>%d\<close>); \<^verbatim>\<open>abs\<close> is taken on the mathematical
  integer, C leaving \<^verbatim>\<open>abs(INT_MIN)\<close> undefined.
\<close>

record 'f DOF =
  type :: nat
  state :: jointState
  tau_d :: 'f
  jpos :: 'f
  jpos_d :: 'f
  jvel_d :: 'f
  mpos :: 'f
  mpos_d :: 'f
  enc_val :: int
  current_cmd :: int
  enc_offset :: int

text \<open>\<^verbatim>\<open>struct mechanism\<close>: the arm type and the fixed array of joints.\<close>

record 'f mechanism =
  mtype :: arm
  joint :: "'f DOF list"

text \<open>\<^verbatim>\<open>struct device\<close>: the mechanisms; \<^verbatim>\<open>NUM_MECH\<close> is the length of the list.\<close>

record 'f device =
  mech :: "'f mechanism list"

text \<open>An entry of the table \<^verbatim>\<open>DOF_types[]\<close>, restricted to the two fields the file reads.\<close>

record 'f DOF_type =
  home_position :: 'f
  max_position :: 'f

text \<open>\<^verbatim>\<open>struct param_pass\<close>, restricted to the run level and sublevel.\<close>

record param_pass =
  runlevel :: int
  sublevel :: int

text \<open>\<^verbatim>\<open>unsigned long int\<close> (64 bits on LP64 Linux): subtraction and addition wrap.\<close>

type_synonym tick = "64 word"

text \<open>
  Modelled from the spec: the joint indices of a mechanism and \<^verbatim>\<open>MAX_DOF_PER_MECH\<close>, macros
  of a header that is not among the sources. The spec orders the joints of a mechanism as
  shoulder, elbow, z-insertion, unused, tool-rotation, wrist, grasper1, grasper2, and gives
  8 joints per mechanism (the tables of this file have 8 and 2 * 8 entries).
\<close>

definition MAX_DOF_PER_MECH :: nat where "MAX_DOF_PER_MECH = 8"
definition SHOULDER :: nat where "SHOULDER = 0"
definition ELBOW :: nat where "ELBOW = 1"
definition Z_INS :: nat where "Z_INS = 2"
definition NO_CONNECTION :: nat where "NO_CONNECTION = 3"
definition TOOL_ROT :: nat where "TOOL_ROT = 4"
definition WRIST :: nat where "WRIST = 5"
definition GRASP1 :: nat where "GRASP1 = 6"
definition GRASP2 :: nat where "GRASP2 = 7"

section \<open>The external collaborators\<close>

text \<open>
  homing.cpp calls functions and reads macros and tables that are defined elsewhere in the
  repository. They are the fields of the record \<open>ext\<close>, and every definition below takes
  such a record \<open>E\<close>. A function that receives a pointer to a joint, a mechanism or the device
  may change it, and may keep state of its own (trajectory generators, filter memory,
  controller integrals): it maps the object and the external state \<open>'x\<close> to the new object
  and the new external state.
  \<^item> \<open>RAVEN_II_SQUARE\<close>, \<open>RICKS_TOOLS\<close>: the two compile-time switches of the file.
  \<^item> \<open>RL_INIT\<close>, \<open>SL_AUTO_INIT\<close>: the run level and sublevel of automatic initialisation.
  \<^item> \<open>is_toolDOF\<close>: the tool-joint predicate, on the joint type (the file calls it on
    \<^verbatim>\<open>_joint\<close> and on \<^verbatim>\<open>_joint->type\<close>).
  \<^item> \<open>f_of_int\<close>, \<open>f_dec\<close>, \<open>DEG2RAD\<close>, \<open>f_mul\<close>, \<open>f_sub\<close>, \<open>f_to_int\<close>, \<open>cc\<close>: C \<^verbatim>\<open>float\<close>
    arithmetic. \<open>f_of_int n\<close> converts an integer, \<open>f_dec m k\<close> is the decimal literal
    \<open>m / 10^k\<close>, \<open>DEG2RAD n\<close> is \<^verbatim>\<open>n DEG2RAD\<close>, \<open>f_to_int\<close> is the conversion on assignment
    to an \<^verbatim>\<open>int\<close>, and \<open>cc\<close> is \<^verbatim>\<open>ENC_CNTS_PER_REV / (2*M_PI)\<close> as a \<^verbatim>\<open>float\<close>.
\<close>

record ('f, 'x) ext =
  RAVEN_II_SQUARE :: bool
  RICKS_TOOLS :: bool
  RL_INIT :: int
  SL_AUTO_INIT :: int
  DOF_types :: "nat \<Rightarrow> 'f DOF_type"
  is_toolDOF :: "nat \<Rightarrow> bool"
  tools_ready :: "'f mechanism \<Rightarrow> bool"
  jvel_PI_control :: "'f DOF \<Rightarrow> int \<Rightarrow> 'x \<Rightarrow> 'f DOF \<times> 'x"
  start_trajectory_mag :: "'f DOF \<Rightarrow> 'f \<Rightarrow> 'f \<Rightarrow> 'x \<Rightarrow> 'f DOF \<times> 'x"
  update_linear_sinusoid_position_trajectory :: "'f DOF \<Rightarrow> 'x \<Rightarrow> 'f DOF \<times> 'x"
  start_trajectory :: "'f DOF \<Rightarrow> 'f \<Rightarrow> 'f \<Rightarrow> 'x \<Rightarrow> 'f DOF \<times> 'x"
  update_position_trajectory :: "'f DOF \<Rightarrow> 'x \<Rightarrow> int \<times> 'f DOF \<times> 'x"
  stop_trajectory :: "'f DOF \<Rightarrow> 'x \<Rightarrow> 'f DOF \<times> 'x"
  invCableCoupling :: "'f device \<Rightarrow> int \<Rightarrow> 'x \<Rightarrow> 'f device \<times> 'x"
  mpos_PD_control :: "'f DOF \<Rightarrow> 'x \<Rightarrow> 'f DOF \<times> 'x"
  TorqueToDAC :: "'f device \<Rightarrow> 'x \<Rightarrow> 'f device \<times> 'x"
  invMechCableCoupling :: "'f mechanism \<Rightarrow> int \<Rightarrow> 'x \<Rightarrow> 'f mechanism \<times> 'x"
  resetFilter :: "'f DOF \<Rightarrow> 'x \<Rightarrow> 'f DOF \<times> 'x"
  getStateLPF :: "'f DOF \<Rightarrow> 'x \<Rightarrow> 'f DOF \<times> 'x"
  fwdMechCableCoupling :: "'f mechanism \<Rightarrow> 'x \<Rightarrow> 'f mechanism \<times> 'x"
  f_of_int :: "int \<Rightarrow> 'f"
  f_dec :: "int \<Rightarrow> nat \<Rightarrow> 'f"
  DEG2RAD :: "int \<Rightarrow> 'f"
  f_mul :: "'f \<Rightarrow> 'f \<Rightarrow> 'f"
  f_sub :: "'f \<Rightarrow> 'f \<Rightarrow> 'f"
  f_to_int :: "'f \<Rightarrow> int"
  cc :: 'f

text \<open>
  The state that \<^verbatim>\<open>raven_homing\<close> keeps between ticks, apart from the device: its three
  function-static variables and the state of the external collaborators. \<open>calls\<close> is a
  trace that no definition reads: every call of \<^verbatim>\<open>set_joints_known_pos\<close> appends the time,
  the index of the mechanism and the argument \<^verbatim>\<open>tool_only\<close>.
\<close>

record 'x hstate =
  homing_inited :: int
  delay :: tick
  delay2 :: tick
  xstate :: 'x
  calls :: "(tick \<times> nat \<times> int) list"

section \<open>Iteration over the joints\<close>

text \<open>
  Modelled from the spec: \<^verbatim>\<open>loop_over_joints\<close>, which is not among the sources. The call with
  a device visits every joint of every mechanism in order (\<^verbatim>\<open>i\<close> from 0 to
  \<^verbatim>\<open>NUM_MECH - 1\<close>, and for each \<^verbatim>\<open>i\<close>, \<^verbatim>\<open>j\<close> from 0 to \<^verbatim>\<open>MAX_DOF_PER_MECH - 1\<close>); the call
  with a mechanism visits every joint of that mechanism. The loop body receives the indices
  and works on the mechanism \<^verbatim>\<open>device0->mech[i]\<close> and the rest of the state.
\<close>

definition loop_over_mech_joints ::
  "(nat \<Rightarrow> 'f mechanism \<times> 's \<Rightarrow> 'f mechanism \<times> 's) \<Rightarrow> 'f mechanism \<times> 's \<Rightarrow> 'f mechanism \<times> 's" where
  "loop_over_mech_joints body = fold body [0..<MAX_DOF_PER_MECH]"

definition on_mech ::
  "nat \<Rightarrow> ('f mechanism \<times> 's \<Rightarrow> 'f mechanism \<times> 's) \<Rightarrow> 'f device \<times> 's \<Rightarrow> 'f device \<times> 's" where
  "on_mech i g = (\<lambda>(d, s). case g (mech d ! i, s) of (m, s') \<Rightarrow> (d\<lparr>mech := (mech d)[i := m]\<rparr>, s'))"

definition loop_over_joints ::
  "(nat \<Rightarrow> nat \<Rightarrow> 'f mechanism \<times> 's \<Rightarrow> 'f mechanism \<times> 's) \<Rightarrow> 'f device \<times> 's \<Rightarrow> 'f device \<times> 's" where
  "loop_over_joints body =
     (\<lambda>(d, s). fold (\<lambda>i. on_mech i (loop_over_mech_joints (body i))) [0..<length (mech d)] (d, s))"

text \<open>A loop body that hands joint \<open>j\<close> of the mechanism to \<open>f\<close> and stores the result.\<close>

definition on_joint ::
  "('f DOF \<Rightarrow> 'x \<Rightarrow> 'f DOF \<times> 'x) \<Rightarrow> nat \<Rightarrow> 'f mechanism \<times> 'x hstate \<Rightarrow> 'f mechanism \<times> 'x hstate" where
  "on_joint f j = (\<lambda>(m, s). case f (joint m ! j) (xstate s) of
                      (d, x') \<Rightarrow> (m\<lparr>joint := (joint m)[j := d]\<rparr>, s\<lparr>xstate := x'\<rparr>))"

section \<open>Hard-stop detection\<close>

text \<open>
  \<^verbatim>\<open>homing_max_dac\<close> (lines 334-353). The argument is the compile-time switch
  \<^verbatim>\<open>RAVEN_II_SQUARE\<close>.
\<close>

definition homing_max_dac :: "bool \<Rightarrow> int list" where
  "homing_max_dac square =
     (if square then [2500, 2500, 1200, 0, 2800, 2200, 2300, 2300]
      else [2500, 2500, 1900, 0, 1400, 1900, 1900, 1900])"

text \<open>\<^verbatim>\<open>check_homing_condition\<close> (lines 365-378); the result is the C \<^verbatim>\<open>int\<close>, 0 or 1.\<close>

definition check_homing_condition :: "bool \<Rightarrow> 'f DOF \<Rightarrow> int" where
  "check_homing_condition square j =
     (if state j \<noteq> jstate_pos_unknown then 0
      else if \<bar>current_cmd j\<bar> \<ge> homing_max_dac square ! (type j mod 8) then 1
      else 0)"

section \<open>The per-joint state machine\<close>

text \<open>
  The two tables of \<^verbatim>\<open>homing()\<close> (lines 284-288), as \<^verbatim>\<open>float\<close>s. They are indexed with the
  joint type, which is below \<^verbatim>\<open>MAX_MECH*MAX_DOF_PER_MECH\<close> = 16 for the joints of a device.
\<close>

definition f_period :: "('f, 'x) ext \<Rightarrow> 'f list" where
  "f_period E = map (f_of_int E) [1, 1, 1, 9999999, 1, 1, 30, 30,
                                  1, 1, 1, 9999999, 1, 1, 30, 30]"

definition f_magnitude :: "('f, 'x) ext \<Rightarrow> 'f list" where
  "f_magnitude E =
     [DEG2RAD E (-10), DEG2RAD E 10, f_dec E 2 2, f_of_int E 9999999,
      DEG2RAD E (-80), DEG2RAD E 40, DEG2RAD E 40, DEG2RAD E 40,
      DEG2RAD E (-10), DEG2RAD E 10, f_dec E 2 2, f_of_int E 9999999,
      DEG2RAD E (-80), DEG2RAD E 40, DEG2RAD E 40, DEG2RAD E 40]"

text \<open>The case \<^verbatim>\<open>jstate_homing2\<close> of the switch, which \<^verbatim>\<open>jstate_homing1\<close> falls through to.\<close>

definition homing2_case :: "('f, 'x) ext \<Rightarrow> 'f DOF \<Rightarrow> 'x \<Rightarrow> 'f DOF \<times> 'x" where
  "homing2_case E j x =
     (case update_position_trajectory E j x of
        (r, j', x') \<Rightarrow> if r = 0 then (j'\<lparr>state := jstate_ready\<rparr>, x') else (j', x'))"

text \<open>\<^verbatim>\<open>homing()\<close> (lines 281-331). \<^verbatim>\<open>jstate_ready\<close> takes the \<^verbatim>\<open>default\<close> branch.\<close>

definition homing :: "('f, 'x) ext \<Rightarrow> 'f DOF \<Rightarrow> 'x \<Rightarrow> 'f DOF \<times> 'x" where
  "homing E j x =
     (case state j of
        jstate_wait \<Rightarrow> (j, x)
      | jstate_not_ready \<Rightarrow>
          start_trajectory_mag E (j\<lparr>state := jstate_pos_unknown\<rparr>)
            (f_magnitude E ! type j) (f_period E ! type j) x
      | jstate_pos_unknown \<Rightarrow> update_linear_sinusoid_position_trajectory E j x
      | jstate_hard_stop \<Rightarrow> (j, x)
      | jstate_homing1 \<Rightarrow>
          (case start_trajectory E j (home_position (DOF_types E (type j))) (f_dec E 25 1) x of
             (j1, x1) \<Rightarrow> homing2_case E (j1\<lparr>state := jstate_homing2\<rparr>) x1)
      | jstate_homing2 \<Rightarrow> homing2_case E j x
      | jstate_ready \<Rightarrow> (j, x))"

section \<open>Calibration: \<^verbatim>\<open>set_joints_known_pos\<close>\<close>

text \<open>The body of the first loop (lines 210-232): the joint position reference.\<close>

definition set_jpos_ref :: "('f, 'x) ext \<Rightarrow> int \<Rightarrow> 'f DOF \<Rightarrow> 'f DOF" where
  "set_jpos_ref E tool_only j =
     (if tool_only \<noteq> 0 \<and> \<not> is_toolDOF E (type j)
      then j\<lparr>jpos_d := home_position (DOF_types E (type j))\<rparr>
      else if tool_only = 0 \<and> is_toolDOF E (type j)
      then j\<lparr>jpos_d := jpos j\<rparr>
      else j\<lparr>jpos_d := max_position (DOF_types E (type j)), state := jstate_homing1\<rparr>)"

text \<open>The test that reverses the encoder value (lines 249-259), in both variants.\<close>

definition enc_reversed :: "('f, 'x) ext \<Rightarrow> arm \<Rightarrow> 'f DOF \<Rightarrow> bool" where
  "enc_reversed E a j =
     (if RAVEN_II_SQUARE E
      then (a = GOLD_ARM \<and> \<not> is_toolDOF E (type j)) \<or> (a = GREEN_ARM \<and> is_toolDOF E (type j))
      else a = GOLD_ARM \<or> is_toolDOF E (type j))"

text \<open>
  The encoder offset computed in lines 246-262 for a joint of an arm of type \<open>a\<close>.
  \<^verbatim>\<open>f_enc_val *= -1.0\<close> multiplies by the literal -1.0.
\<close>

definition enc_offset_of :: "('f, 'x) ext \<Rightarrow> arm \<Rightarrow> 'f DOF \<Rightarrow> int" where
  "enc_offset_of E a j =
     (let f_enc_val = f_of_int E (enc_val j);
          f_enc_val' = (if enc_reversed E a j then f_mul E f_enc_val (f_dec E (-10) 1)
                        else f_enc_val);
          cc' = cc E
      in f_to_int E (f_sub E f_enc_val' (f_mul E (mpos_d j) cc')))"

text \<open>The body of the second loop (lines 238-264).\<close>

definition set_enc_offset :: "('f, 'x) ext \<Rightarrow> arm \<Rightarrow> 'f DOF \<Rightarrow> 'x \<Rightarrow> 'f DOF \<times> 'x" where
  "set_enc_offset E a j x =
     (case resetFilter E (j\<lparr>mpos := mpos_d j\<rparr>) x of
        (j1, x1) \<Rightarrow> getStateLPF E (j1\<lparr>enc_offset := enc_offset_of E a j1\<rparr>) x1)"

text \<open>
  \<^verbatim>\<open>set_joints_known_pos\<close> (lines 203-268), on the mechanism and the external state. The
  first loop calls no external function; the arm type read in the second loop is the one
  the mechanism has at that point.
\<close>

definition jpos_ref_loop :: "('f, 'x) ext \<Rightarrow> int \<Rightarrow> 'f mechanism \<times> 'x hstate \<Rightarrow> 'f mechanism \<times> 'x hstate" where
  "jpos_ref_loop E tool_only =
     loop_over_mech_joints (on_joint (\<lambda>j x. (set_jpos_ref E tool_only j, x)))"

definition enc_offset_loop :: "('f, 'x) ext \<Rightarrow> 'f mechanism \<times> 'x hstate \<Rightarrow> 'f mechanism \<times> 'x hstate" where
  "enc_offset_loop E =
     loop_over_mech_joints (\<lambda>j (m, s). on_joint (set_enc_offset E (mtype m)) j (m, s))"

definition set_joints_known_pos ::
  "('f, 'x) ext \<Rightarrow> int \<Rightarrow> 'f mechanism \<times> 'x hstate \<Rightarrow> 'f mechanism \<times> 'x hstate" where
  "set_joints_known_pos E tool_only ms =
     (case jpos_ref_loop E tool_only ms of
        (m1, s1) \<Rightarrow>
     case invMechCableCoupling E m1 1 (xstate s1) of
        (m2, x2) \<Rightarrow>
     case enc_offset_loop E (m2, s1\<lparr>xstate := x2\<rparr>) of
        (m3, s3) \<Rightarrow>
     case fwdMechCableCoupling E m3 (xstate s3) of
        (m4, x4) \<Rightarrow> (m4, s3\<lparr>xstate := x4\<rparr>))"

section \<open>The tick function \<^verbatim>\<open>raven_homing\<close>\<close>

text \<open>The block under \<^verbatim>\<open>RICKS_TOOLS\<close> (lines 75-82).\<close>

definition ricks_tools :: "('f, 'x) ext \<Rightarrow> 'f device \<times> 'x hstate \<Rightarrow> 'f device \<times> 'x hstate" where
  "ricks_tools E =
     loop_over_joints (\<lambda>i. on_joint (\<lambda>j x.
        (if is_toolDOF E (type j) then j\<lparr>state := jstate_ready\<rparr> else j, x)))"

text \<open>The body of the initialisation loop (lines 108-115).\<close>

definition init_joint :: "('f::zero, 'x) ext \<Rightarrow> 'f DOF \<Rightarrow> 'x \<Rightarrow> 'f DOF \<times> 'x" where
  "init_joint E j x =
     (let j1 = j\<lparr>tau_d := 0, mpos_d := mpos j, jpos_d := jpos j, jvel_d := 0,
                  state := jstate_not_ready\<rparr>
      in if is_toolDOF E (type j1) then jvel_PI_control E j1 1 x else (j1, x))"

text \<open>
  The initialisation loop (lines 105-117). \<^verbatim>\<open>homing_inited = 1\<close> is inside the loop body, so
  it is set when the loop runs at least once.
\<close>

definition init_loop :: "('f::zero, 'x) ext \<Rightarrow> 'f device \<times> 'x hstate \<Rightarrow> 'f device \<times> 'x hstate" where
  "init_loop E =
     (\<lambda>(d, s). case loop_over_joints (\<lambda>i. on_joint (init_joint E)) (d, s) of
        (d', s') \<Rightarrow> (d', if mech d = [] then s' else s'\<lparr>homing_inited := 1\<rparr>))"

text \<open>The initialisation of the homing sequence (lines 102-118).\<close>

definition init_homing ::
  "('f::zero, 'x) ext \<Rightarrow> int \<Rightarrow> 'f device \<times> 'x hstate \<Rightarrow> 'f device \<times> 'x hstate" where
  "init_homing E begin_homing =
     (\<lambda>(d, s). if begin_homing \<noteq> 0 \<or> homing_inited s = 0 then init_loop E (d, s) else (d, s))"

text \<open>The motion commands (lines 121-129): the tools first.\<close>

definition motion_command ::
  "('f, 'x) ext \<Rightarrow> nat \<Rightarrow> 'f mechanism \<times> 'x hstate \<Rightarrow> 'f mechanism \<times> 'x hstate" where
  "motion_command E j =
     (\<lambda>(m, s). if is_toolDOF E (type (joint m ! j)) \<or> tools_ready E m
               then on_joint (homing E) j (m, s) else (m, s))"

definition motion_commands :: "('f, 'x) ext \<Rightarrow> 'f device \<times> 'x hstate \<Rightarrow> 'f device \<times> 'x hstate" where
  "motion_commands E = loop_over_joints (\<lambda>i. motion_command E)"

text \<open>
  Inverse cable coupling, PD control on all joints and the DAC values (lines 131-142).
\<close>

definition control_outputs ::
  "('f, 'x) ext \<Rightarrow> param_pass \<Rightarrow> 'f device \<times> 'x hstate \<Rightarrow> 'f device \<times> 'x hstate" where
  "control_outputs E currParams =
     (\<lambda>(d, s).
        case invCableCoupling E d (runlevel currParams) (xstate s) of
          (d1, x1) \<Rightarrow>
        case loop_over_joints (\<lambda>i. on_joint (mpos_PD_control E)) (d1, s\<lparr>xstate := x1\<rparr>) of
          (d2, s2) \<Rightarrow>
        case TorqueToDAC E d2 (xstate s2) of
          (d3, x3) \<Rightarrow> (d3, s2\<lparr>xstate := x3\<rparr>))"

text \<open>The joint-limit check of one joint (lines 150-158); \<^verbatim>\<open>log_msg\<close> is left out.\<close>

definition found_limit :: "('f, 'x) ext \<Rightarrow> 'f DOF \<Rightarrow> 'x \<Rightarrow> 'f DOF \<times> 'x" where
  "found_limit E j x =
     (if check_homing_condition (RAVEN_II_SQUARE E) j \<noteq> 0
      then stop_trajectory E (j\<lparr>state := jstate_hard_stop, current_cmd := 0\<rparr>) x
      else (j, x))"

text \<open>The condition of lines 164-172: the active joint group is at its hard stops.\<close>

definition group_at_hard_stop :: "('f, 'x) ext \<Rightarrow> 'f mechanism \<Rightarrow> bool" where
  "group_at_hard_stop E m =
     ((\<not> tools_ready E m \<and>
       state (joint m ! TOOL_ROT) = jstate_hard_stop \<and>
       state (joint m ! WRIST) = jstate_hard_stop \<and>
       state (joint m ! GRASP1) = jstate_hard_stop)
      \<or>
      (tools_ready E m \<and>
       state (joint m ! SHOULDER) = jstate_hard_stop \<and>
       state (joint m ! ELBOW) = jstate_hard_stop \<and>
       state (joint m ! Z_INS) = jstate_hard_stop))"

text \<open>
  The check whether the mechanism is finished (lines 164-182), for mechanism \<open>i\<close> at time
  \<open>gTime\<close>. \<^verbatim>\<open>!tools_ready(_mech)\<close> is 1 or 0.
\<close>

definition mech_finished ::
  "('f, 'x) ext \<Rightarrow> tick \<Rightarrow> nat \<Rightarrow> 'f mechanism \<times> 'x hstate \<Rightarrow> 'f mechanism \<times> 'x hstate" where
  "mech_finished E gTime i =
     (\<lambda>(m, s).
        if group_at_hard_stop E m then
          let s1 = (if delay2 s = 0 then s\<lparr>delay2 := gTime\<rparr> else s)
          in if gTime > delay2 s1 + 200
             then let tool_only = (if tools_ready E m then 0 else 1)
                  in case set_joints_known_pos E tool_only (m, s1) of
                       (m', s') \<Rightarrow>
                         (m', s'\<lparr>delay2 := 0, calls := calls s' @ [(gTime, i, tool_only)]\<rparr>)
             else (m, s1)
        else (m, s))"

text \<open>The body of the last loop (lines 148-183).\<close>

definition check_joint ::
  "('f, 'x) ext \<Rightarrow> tick \<Rightarrow> nat \<Rightarrow> nat \<Rightarrow> 'f mechanism \<times> 'x hstate \<Rightarrow> 'f mechanism \<times> 'x hstate" where
  "check_joint E gTime i j ms =
     (let ms1 = on_joint (found_limit E) j ms
      in if j = MAX_DOF_PER_MECH - 1 then mech_finished E gTime i ms1 else ms1)"

definition check_limits :: "('f, 'x) ext \<Rightarrow> tick \<Rightarrow> 'f device \<times> 'x hstate \<Rightarrow> 'f device \<times> 'x hstate" where
  "check_limits E gTime = loop_over_joints (check_joint E gTime)"

text \<open>
  \<^verbatim>\<open>raven_homing\<close> (lines 66-188). The arguments are the device and the kept state, the
  global \<^verbatim>\<open>gTime\<close>, \<^verbatim>\<open>currParams\<close> and \<^verbatim>\<open>begin_homing\<close>; the result is the new device and
  state (the C function always returns 0).
\<close>

definition raven_homing ::
  "('f::zero, 'x) ext \<Rightarrow> tick \<Rightarrow> param_pass \<Rightarrow> int \<Rightarrow> 'f device \<times> 'x hstate \<Rightarrow> 'f device \<times> 'x hstate" where
  "raven_homing E gTime currParams begin_homing ds =
     (case (if RICKS_TOOLS E then ricks_tools E ds else ds) of
        (d, s) \<Rightarrow>
          if \<not> (runlevel currParams = RL_INIT E \<and> sublevel currParams = SL_AUTO_INIT E)
          then (d, s\<lparr>homing_inited := 0, delay := gTime\<rparr>)
          else if gTime - delay s < 1000 then (d, s)
          else check_limits E gTime
                 (control_outputs E currParams
                   (motion_commands E (init_homing E begin_homing (d, s)))))"

section \<open>Auxiliary notions for the proofs\<close>

text \<open>
  The index loops as recursion over the list: \<open>upd_at g i\<close> hands element \<open>i\<close> of a list to
  \<open>g i\<close> and stores the result, and \<open>ithread g k xs s\<close> does so for every element of \<open>xs\<close> in
  order, counting the index from \<open>k\<close> and threading the state.
\<close>

definition upd_at :: "(nat \<Rightarrow> 'a \<times> 's \<Rightarrow> 'a \<times> 's) \<Rightarrow> nat \<Rightarrow> 'a list \<times> 's \<Rightarrow> 'a list \<times> 's" where
  "upd_at g i = (\<lambda>(xs, s). case g i (xs ! i, s) of (y, s') \<Rightarrow> (xs[i := y], s'))"

fun ithread :: "(nat \<Rightarrow> 'a \<times> 's \<Rightarrow> 'a \<times> 's) \<Rightarrow> nat \<Rightarrow> 'a list \<Rightarrow> 's \<Rightarrow> 'a list \<times> 's" where
  "ithread g k [] s = ([], s)"
| "ithread g k (a # as) s =
     (case g k (a, s) of (b, s') \<Rightarrow> case ithread g (Suc k) as s' of (bs, s'') \<Rightarrow> (b # bs, s''))"

definition jstep :: "('f DOF \<Rightarrow> 'x \<Rightarrow> 'f DOF \<times> 'x) \<Rightarrow> nat \<Rightarrow> 'f DOF \<times> 'x hstate \<Rightarrow> 'f DOF \<times> 'x hstate" where
  "jstep f j = (\<lambda>(d, s). case f d (xstate s) of (d', x') \<Rightarrow> (d', s\<lparr>xstate := x'\<rparr>))"

text \<open>
  Frame conditions on the external collaborators: a function on a joint, on a mechanism or
  on the device keeps \<open>fld\<close> when the value of \<open>fld\<close> of every joint is the same before and
  after (and so is the number of joints). \<open>calib_keeps\<close> says so of the four collaborators
  that \<^verbatim>\<open>set_joints_known_pos\<close> calls.
\<close>

definition keeps :: "('f DOF \<Rightarrow> 'a) \<Rightarrow> ('f DOF \<Rightarrow> 'x \<Rightarrow> 'f DOF \<times> 'x) \<Rightarrow> bool" where
  "keeps fld f \<longleftrightarrow> (\<forall>j x. fld (fst (f j x)) = fld j)"

definition mkeeps :: "('f DOF \<Rightarrow> 'a) \<Rightarrow> ('f mechanism \<Rightarrow> 'x \<Rightarrow> 'f mechanism \<times> 'x) \<Rightarrow> bool" where
  "mkeeps fld g \<longleftrightarrow> (\<forall>m x. map fld (joint (fst (g m x))) = map fld (joint m))"

definition dkeeps :: "('f DOF \<Rightarrow> 'a) \<Rightarrow> ('f device \<Rightarrow> 'x \<Rightarrow> 'f device \<times> 'x) \<Rightarrow> bool" where
  "dkeeps fld h \<longleftrightarrow>
     (\<forall>d x. map (\<lambda>m. map fld (joint m)) (mech (fst (h d x))) = map (\<lambda>m. map fld (joint m)) (mech d))"

definition calib_keeps :: "('f DOF \<Rightarrow> 'a) \<Rightarrow> ('f, 'x) ext \<Rightarrow> bool" where
  "calib_keeps fld E \<longleftrightarrow>
     mkeeps fld (\<lambda>m. invMechCableCoupling E m 1) \<and> keeps fld (resetFilter E) \<and>
     keeps fld (getStateLPF E) \<and> mkeeps fld (fwdMechCableCoupling E)"

section \<open>A concrete environment and concrete devices\<close>

text \<open>
  An instance of the external collaborators, used to run the definitions on concrete
  inputs. \<^verbatim>\<open>float\<close>s are real numbers with exact arithmetic, the conversion to \<^verbatim>\<open>int\<close>
  truncates towards zero, \<open>pi\<close> is 355/113 and \<open>cc\<close> is 652 (for 4096 counts per revolution). The tool joints are the types 4 to 7 of each mechanism, and the
  tools are ready when the four tool joints are \<open>jstate_ready\<close>. The search trajectory
  advances the desired joint position by one unit per tick, the cable coupling is the
  identity, the controller is proportional with gain 1 and the DAC value is 1000 times
  the torque. The measured positions do not move.
\<close>

definition trunc :: "real \<Rightarrow> int" where
  "trunc r = (if 0 \<le> r then \<lfloor>r\<rfloor> else \<lceil>r\<rceil>)"

definition couple :: "real mechanism \<Rightarrow> real mechanism" where
  "couple m = m\<lparr>joint := map (\<lambda>j. j\<lparr>mpos_d := jpos_d j\<rparr>) (joint m)\<rparr>"

definition E0 :: "(real, unit) ext" where
  "E0 = \<lparr>RAVEN_II_SQUARE = False,
         RICKS_TOOLS = False,
         RL_INIT = 1,
         SL_AUTO_INIT = 3,
         DOF_types = (\<lambda>t. \<lparr>home_position = 0, max_position = 1\<rparr>),
         is_toolDOF = (\<lambda>t. 4 \<le> t mod 8),
         tools_ready = (\<lambda>m. state (joint m ! TOOL_ROT) = jstate_ready \<and>
                              state (joint m ! WRIST) = jstate_ready \<and>
                              state (joint m ! GRASP1) = jstate_ready \<and>
                              state (joint m ! GRASP2) = jstate_ready),
         jvel_PI_control = (\<lambda>j r x. (j, x)),
         start_trajectory_mag = (\<lambda>j a b x. (j, x)),
         update_linear_sinusoid_position_trajectory = (\<lambda>j x. (j\<lparr>jpos_d := jpos_d j + 1\<rparr>, x)),
         start_trajectory = (\<lambda>j a b x. (j, x)),
         update_position_trajectory = (\<lambda>j x. (1, j, x)),
         stop_trajectory = (\<lambda>j x. (j, x)),
         invCableCoupling = (\<lambda>d r x. (d\<lparr>mech := map couple (mech d)\<rparr>, x)),
         mpos_PD_control = (\<lambda>j x. (j\<lparr>tau_d := mpos_d j - mpos j\<rparr>, x)),
         TorqueToDAC = (\<lambda>d x. (d\<lparr>mech := map (\<lambda>m. m\<lparr>joint :=
                           map (\<lambda>j. j\<lparr>current_cmd := trunc (1000 * tau_d j)\<rparr>) (joint m)\<rparr>) (mech d)\<rparr>, x)),
         invMechCableCoupling = (\<lambda>m r x. (couple m, x)),
         resetFilter = (\<lambda>j x. (j, x)),
         getStateLPF = (\<lambda>j x. (j, x)),
         fwdMechCableCoupling = (\<lambda>m x. (m, x)),
         f_of_int = of_int,
         f_dec = (\<lambda>m k. of_int m / 10 ^ k),
         DEG2RAD = (\<lambda>n. of_int n * 355 / (113 * 180)),
         f_mul = (*),
         f_sub = (-),
         f_to_int = trunc,
         cc = 652\<rparr>"

text \<open>A joint of type \<open>t\<close> in state \<open>st\<close> with encoder value \<open>e\<close>, everything else 0.\<close>

definition dof :: "nat \<Rightarrow> jointState \<Rightarrow> int \<Rightarrow> real DOF" where
  "dof t st e = \<lparr>type = t, state = st, tau_d = 0, jpos = 0, jpos_d = 0, jvel_d = 0,
                 mpos = 0, mpos_d = 0, enc_val = e, current_cmd = 0, enc_offset = 0\<rparr>"

text \<open>
  A gold arm with the joint types 0 to 7 and a green arm with the joint types 8 to 15, the
  joints in the states \<open>sts\<close> and with encoder value 5000.
\<close>

definition gold_mech :: "jointState list \<Rightarrow> real mechanism" where
  "gold_mech sts =
     \<lparr>mtype = GOLD_ARM,
      joint = [dof 0 (sts ! 0) 5000, dof 1 (sts ! 1) 5000, dof 2 (sts ! 2) 5000,
               dof 3 (sts ! 3) 5000, dof 4 (sts ! 4) 5000, dof 5 (sts ! 5) 5000,
               dof 6 (sts ! 6) 5000, dof 7 (sts ! 7) 5000]\<rparr>"


definition hstate0 :: "unit hstate" where
  "hstate0 = \<lparr>homing_inited = 0, delay = 0, delay2 = 0, xstate = (), calls = []\<rparr>"

definition init_params :: param_pass where
  "init_params = \<lparr>runlevel = 1, sublevel = 3\<rparr>"

text \<open>A gold arm whose tool joints are at their hard stops.\<close>

definition M_tools :: "real mechanism" where
  "M_tools = gold_mech [jstate_not_ready, jstate_not_ready, jstate_not_ready, jstate_not_ready,
                          jstate_hard_stop, jstate_hard_stop, jstate_hard_stop, jstate_hard_stop]"

text \<open>A run of the controller: the ticks are given by the time \<^verbatim>\<open>gTime\<close>, the parameters and the flag \<^verbatim>\<open>begin_homing\<close> of each call of \<^verbatim>\<open>raven_homing\<close>, in order.\<close>

definition run :: "('f::zero, 'x) ext \<Rightarrow> (tick \<times> param_pass \<times> int) list \<Rightarrow> 'f device \<times> 'x hstate \<Rightarrow> 'f device \<times> 'x hstate" where
  "run E ins = fold (\<lambda>(gTime, currParams, begin_homing). raven_homing E gTime currParams begin_homing) ins"

text \<open>A property of the kept state that does not depend on the state of the external collaborators.\<close>

definition xfree :: "('x hstate \<Rightarrow> bool) \<Rightarrow> bool" where
  "xfree P \<longleftrightarrow> (\<forall>s x. P (s\<lparr>xstate := x\<rparr>) = P s)"

text \<open>A joint held against a stop: desired position, desired motor position and torque are \<open>p\<close>, the DAC command is \<open>c\<close>.\<close>

definition held :: "nat \<Rightarrow> jointState \<Rightarrow> real \<Rightarrow> int \<Rightarrow> real DOF" where
  "held t st p c = (dof t st 5000)\<lparr>tau_d := p, jpos_d := p, mpos_d := p, current_cmd := c\<rparr>"




text \<open>The ticks at the times \<open>a\<close> to \<open>b - 1\<close>, in automatic initialisation and with \<^verbatim>\<open>begin_homing\<close> not set.\<close>

definition ticks :: "nat \<Rightarrow> nat \<Rightarrow> (tick \<times> param_pass \<times> int) list" where
  "ticks a b = map (\<lambda>n. (of_nat n, init_params, 0)) [a..<b]"





text \<open>The device and kept state after \<^verbatim>\<open>TorqueToDAC\<close> (line 142), in a tick that passes the tests of the run level and of the start delay.\<close>

definition dac_stage ::
  "('f::zero, 'x) ext \<Rightarrow> param_pass \<Rightarrow> int \<Rightarrow> 'f device \<times> 'x hstate \<Rightarrow> 'f device \<times> 'x hstate" where
  "dac_stage E currParams begin_homing ds =
     control_outputs E currParams (motion_commands E (init_homing E begin_homing
       (if RICKS_TOOLS E then ricks_tools E ds else ds)))"

text \<open>A gold arm whose tool joints are searching and will get the DAC command 2000 in the next tick. \<open>S_tool_dac\<close> is the state after \<^verbatim>\<open>TorqueToDAC\<close> in the tick at time 1000, \<open>S_tool1\<close> and \<open>S_tool2\<close> are the states after the ticks at times 1000 and 1001.\<close>

definition S_tool0 :: "real device \<times> unit hstate" where
  "S_tool0 = (\<lparr>mech = [\<lparr>mtype = GOLD_ARM, joint =
      [held 0 jstate_not_ready 0 0, held 1 jstate_not_ready 0 0,
       held 2 jstate_not_ready 0 0, held 3 jstate_not_ready 0 0,
       held 4 jstate_pos_unknown 1 1000, held 5 jstate_pos_unknown 1 1000,
       held 6 jstate_pos_unknown 1 1000, held 7 jstate_pos_unknown 1 1000]\<rparr>]\<rparr>,
     hstate0\<lparr>homing_inited := 1\<rparr>)"

definition S_tool_dac :: "real device \<times> unit hstate" where
  "S_tool_dac = (\<lparr>mech = [\<lparr>mtype = GOLD_ARM, joint =
      [held 0 jstate_not_ready 0 0, held 1 jstate_not_ready 0 0,
       held 2 jstate_not_ready 0 0, held 3 jstate_not_ready 0 0,
       held 4 jstate_pos_unknown 2 2000, held 5 jstate_pos_unknown 2 2000,
       held 6 jstate_pos_unknown 2 2000, held 7 jstate_pos_unknown 2 2000]\<rparr>]\<rparr>,
     hstate0\<lparr>homing_inited := 1\<rparr>)"

definition S_tool1 :: "real device \<times> unit hstate" where
  "S_tool1 = (\<lparr>mech = [\<lparr>mtype = GOLD_ARM, joint =
      [held 0 jstate_not_ready 0 0, held 1 jstate_not_ready 0 0,
       held 2 jstate_not_ready 0 0, held 3 jstate_not_ready 0 0,
       held 4 jstate_hard_stop 2 0, held 5 jstate_hard_stop 2 0,
       held 6 jstate_hard_stop 2 0, held 7 jstate_hard_stop 2 0]\<rparr>]\<rparr>,
     hstate0\<lparr>homing_inited := 1, delay2 := 1000\<rparr>)"

definition S_tool2 :: "real device \<times> unit hstate" where
  "S_tool2 = (\<lparr>mech = [\<lparr>mtype = GOLD_ARM, joint =
      [held 0 jstate_not_ready 0 0, held 1 jstate_not_ready 0 0,
       held 2 jstate_not_ready 0 0, held 3 jstate_not_ready 0 0,
       held 4 jstate_hard_stop 2 2000, held 5 jstate_hard_stop 2 2000,
       held 6 jstate_hard_stop 2 2000, held 7 jstate_hard_stop 2 2000]\<rparr>]\<rparr>,
     hstate0\<lparr>homing_inited := 1, delay2 := 1000\<rparr>)"









text \<open>
  The reading of the \<^verbatim>\<open>float\<close> operations as exact arithmetic on the reals: the conversion of
  an \<^verbatim>\<open>int\<close> is its value, the literal -1.0 is -1, product and difference are exact, the
  conversion to \<^verbatim>\<open>int\<close> on assignment truncates towards zero (as C++ does), and the constant
  \<^verbatim>\<open>ENC_CNTS_PER_REV / (2*M_PI)\<close> is positive.
\<close>

definition exact_floats :: "(real, 'x) ext \<Rightarrow> bool" where
  "exact_floats E \<longleftrightarrow>
     0 < cc E \<and> (\<forall>n. f_of_int E n = of_int n) \<and> f_dec E (- 10) 1 = - 1 \<and>
     (\<forall>u v. f_mul E u v = u * v) \<and> (\<forall>u v. f_sub E u v = u - v) \<and>
     (\<forall>u. f_to_int E u = trunc u)"

text \<open>
  The environment \<open>E0\<close> with 4096 encoder counts per revolution (355/113 for pi) and the
  limit 1/10 as the known position of every joint.
\<close>

definition E_D :: "(real, unit) ext" where
  "E_D = E0\<lparr>DOF_types := (\<lambda>t. \<lparr>home_position = 0, max_position = 1 / 10\<rparr>),
             cc := 4096 / (2 * (355 / 113))\<rparr>"

text \<open>A gold arm whose joints of the positioning group are at their hard stops, the tools ready.\<close>

definition M_D :: "real mechanism" where
  "M_D = gold_mech [jstate_hard_stop, jstate_hard_stop, jstate_hard_stop, jstate_hard_stop,
                    jstate_ready, jstate_ready, jstate_ready, jstate_ready]"

section \<open>The hard-stop detector\<close>

text \<open>
  C1. For every joint, \<^verbatim>\<open>check_homing_condition\<close> returns true if and only if the joint's state
  is \<open>pos_unknown\<close> and \<open>abs(current_cmd) >= homing_max_dac[type % 8]\<close>; in any other state it
  returns false whatever \<open>current_cmd\<close> is. True is the C value 1, false is 0.
\<close>

theorem check_homing_condition_iff:
  "(check_homing_condition square j \<noteq> 0 \<longleftrightarrow>
      state j = jstate_pos_unknown \<and> \<bar>current_cmd j\<bar> \<ge> homing_max_dac square ! (type j mod 8))
   \<and> (state j \<noteq> jstate_pos_unknown \<longrightarrow> check_homing_condition square j = 0)
   \<and> (check_homing_condition square j = 0 \<or> check_homing_condition square j = 1)"
  by (simp add: check_homing_condition_def)

theorem check_homing_condition_iff_witness:
  "check_homing_condition False (dof 0 jstate_pos_unknown 0\<lparr>current_cmd := - 2500\<rparr>) = 1
   \<and> check_homing_condition False (dof 0 jstate_pos_unknown 0\<lparr>current_cmd := 2499\<rparr>) = 0
   \<and> check_homing_condition False (dof 0 jstate_hard_stop 0\<lparr>current_cmd := 2500\<rparr>) = 0"
  using check_homing_condition_iff [of False "dof 0 jstate_pos_unknown 0\<lparr>current_cmd := - 2500\<rparr>"]
        check_homing_condition_iff [of False "dof 0 jstate_pos_unknown 0\<lparr>current_cmd := 2499\<rparr>"]
        check_homing_condition_iff [of False "dof 0 jstate_hard_stop 0\<lparr>current_cmd := 2500\<rparr>"]
  by (auto simp add: dof_def homing_max_dac_def)

text \<open>
  C6 as stated fails: the threshold of the unused slot (type 3 of each mechanism) is 0, so a
  joint of that type in state \<open>pos_unknown\<close> reports a hard stop for every \<open>current_cmd\<close>, in
  both variants of the table.
\<close>

theorem unused_slot_counterexample:
  "type (dof 3 jstate_pos_unknown 0) mod 8 = NO_CONNECTION
   \<and> current_cmd (dof 3 jstate_pos_unknown 0) = 0
   \<and> check_homing_condition False (dof 3 jstate_pos_unknown 0) = 1
   \<and> check_homing_condition True (dof 3 jstate_pos_unknown 0) = 1"
  by (simp add: dof_def check_homing_condition_def homing_max_dac_def NO_CONNECTION_def)

text \<open>
  C6, amended. For a joint of the unused slot, \<^verbatim>\<open>check_homing_condition\<close> returns true exactly
  when the joint's state is \<open>pos_unknown\<close>, for every value of \<open>current_cmd\<close>, and false in
  every other state.
\<close>

theorem unused_slot_detection:
  "type j mod 8 = NO_CONNECTION \<Longrightarrow>
     check_homing_condition square j = (if state j = jstate_pos_unknown then 1 else 0)"
  by (simp add: check_homing_condition_def homing_max_dac_def NO_CONNECTION_def)

theorem unused_slot_detection_witness:
  "(11::nat) mod 8 = NO_CONNECTION
   \<and> check_homing_condition True (dof 11 jstate_pos_unknown 0\<lparr>current_cmd := 7\<rparr>) = 1
   \<and> check_homing_condition True (dof 11 jstate_not_ready 0\<lparr>current_cmd := 7\<rparr>) = 0"
proof -
  have t: "type (dof 11 jstate_pos_unknown 0\<lparr>current_cmd := 7\<rparr>) mod 8 = NO_CONNECTION"
          "type (dof 11 jstate_not_ready 0\<lparr>current_cmd := 7\<rparr>) mod 8 = NO_CONNECTION"
    by (simp_all add: dof_def NO_CONNECTION_def)
  show ?thesis
    using unused_slot_detection [OF t(1), of True] unused_slot_detection [OF t(2), of True] t
    by (simp add: dof_def)
qed

section \<open>Loops over the joints\<close>

lemma fold_upd_at_append:
  "fold (upd_at g) [length pre..<length pre + length post] (pre @ post, s) =
     (case ithread g (length pre) post s of (ys, s') \<Rightarrow> (pre @ ys, s'))"
proof (induction post arbitrary: pre s)
  case Nil
  then show ?case by simp
next
  case (Cons a as)
  obtain b s1 where g: "g (length pre) (a, s) = (b, s1)" by (cases "g (length pre) (a, s)")
  have upt: "[length pre..<length pre + length (a # as)] =
               length pre # [length (pre @ [b])..<length (pre @ [b]) + length as]"
    by (subst upt_rec) simp
  have step: "upd_at g (length pre) (pre @ a # as, s) = ((pre @ [b]) @ as, s1)"
    by (simp add: upd_at_def g)
  show ?case
    unfolding upt
    using Cons.IH [of "pre @ [b]" s1]
    by (simp add: step g split: prod.splits del: append_assoc) 
qed

lemma fold_upd_at:
  "fold (upd_at g) [0..<length xs] (xs, s) = ithread g 0 xs s"
  using fold_upd_at_append [of g "[]" xs s] by (simp split: prod.splits)

lemma ithread_length': "ithread g k xs s = (ys, s') \<Longrightarrow> length ys = length xs"
  by (induction xs arbitrary: k s ys s') (auto split: prod.splits)

lemma ithread_length: "length (fst (ithread g k xs s)) = length xs"
  by (cases "ithread g k xs s") (simp add: ithread_length')

lemma ithread_nth:
  "j < length xs \<Longrightarrow> \<exists>t. fst (ithread g k xs s) ! j = fst (g (k + j) (xs ! j, t))"
proof (induction xs arbitrary: k s j)
  case Nil
  then show ?case by simp
next
  case (Cons a as)
  obtain b s1 where g: "g k (a, s) = (b, s1)" by (cases "g k (a, s)")
  show ?case
  proof (cases j)
    case 0
    then show ?thesis using g by (auto split: prod.splits intro: exI [of _ s])
  next
    case (Suc j')
    then have "j' < length as" using Cons.prems by simp
    from Cons.IH [OF this, of "Suc k" s1] obtain t where
      "fst (ithread g (Suc k) as s1) ! j' = fst (g (Suc k + j') (as ! j', t))" by blast
    then show ?thesis using g Suc by (auto split: prod.splits intro: exI [of _ t])
  qed
qed

lemma ithread_pure:
  "(\<And>k a s. g k (a, s) = (h a, s)) \<Longrightarrow> ithread g k xs s = (map h xs, s)"
  by (induction xs arbitrary: k s) auto

lemma fold_inv:
  "(\<And>k a. k \<in> set ks \<Longrightarrow> P a \<Longrightarrow> P (body k a)) \<Longrightarrow> P a \<Longrightarrow> P (fold body ks a)"
  by (induction ks arbitrary: a) auto

lemma on_joint_upd_at:
  "on_joint f j (m, s) = (case upd_at (jstep f) j (joint m, s) of (js, s') \<Rightarrow> (m\<lparr>joint := js\<rparr>, s'))"
  by (simp add: on_joint_def upd_at_def jstep_def split: prod.splits)

lemma fold_on_joint:
  "fold (on_joint f) ks (m, s) =
     (case fold (upd_at (jstep f)) ks (joint m, s) of (js, s') \<Rightarrow> (m\<lparr>joint := js\<rparr>, s'))"
proof (induction ks arbitrary: m s)
  case Nil
  then show ?case by simp
next
  case (Cons k ks)
  obtain js s1 where u: "upd_at (jstep f) k (joint m, s) = (js, s1)"
    by (cases "upd_at (jstep f) k (joint m, s)")
  show ?case
    using Cons.IH [of "m\<lparr>joint := js\<rparr>" s1] by (simp add: on_joint_upd_at u)
qed

lemma joints_loop:
  assumes "length (joint m) = MAX_DOF_PER_MECH"
  shows "loop_over_mech_joints (on_joint f) (m, s) =
           (case ithread (jstep f) 0 (joint m) s of (js, s') \<Rightarrow> (m\<lparr>joint := js\<rparr>, s'))"
  using fold_upd_at [of "jstep f" "joint m" s] assms
  by (simp add: loop_over_mech_joints_def fold_on_joint)

lemma on_mech_upd_at:
  "on_mech i (g i) (d, s) = (case upd_at g i (mech d, s) of (ms, s') \<Rightarrow> (d\<lparr>mech := ms\<rparr>, s'))"
  by (simp add: on_mech_def upd_at_def split: prod.splits)

lemma fold_on_mech:
  "fold (\<lambda>i. on_mech i (g i)) ks (d, s) =
     (case fold (upd_at g) ks (mech d, s) of (ms, s') \<Rightarrow> (d\<lparr>mech := ms\<rparr>, s'))"
proof (induction ks arbitrary: d s)
  case Nil
  then show ?case by simp
next
  case (Cons k ks)
  obtain ms s1 where u: "upd_at g k (mech d, s) = (ms, s1)"
    by (cases "upd_at g k (mech d, s)")
  show ?case
    using Cons.IH [of "d\<lparr>mech := ms\<rparr>" s1] by (simp add: on_mech_upd_at u)
qed

lemma mechs_loop:
  "loop_over_joints body (d, s) =
     (case ithread (\<lambda>i. loop_over_mech_joints (body i)) 0 (mech d) s of
        (ms, s') \<Rightarrow> (d\<lparr>mech := ms\<rparr>, s'))"
  using fold_upd_at [of "\<lambda>i. loop_over_mech_joints (body i)" "mech d" s]
  by (simp add: loop_over_joints_def fold_on_mech)

lemma check_loop_mech:
  "loop_over_mech_joints (check_joint E gTime i) ms =
     mech_finished E gTime i (loop_over_mech_joints (on_joint (found_limit E)) ms)"
proof -
  have upt: "[0..<8::nat] = [0..<7] @ [7]"
    by (simp add: upt_rec)
  have "fold (check_joint E gTime i) [0..<7] ms = fold (on_joint (found_limit E)) [0..<7] ms"
    by (rule fold_cong) (auto simp: check_joint_def MAX_DOF_PER_MECH_def)
  then show ?thesis
    by (simp add: loop_over_mech_joints_def check_joint_def MAX_DOF_PER_MECH_def Let_def upt
          del: upt_rec_numeral)
qed

lemma ithread_keeps:
  "(\<And>k a s. fld (fst (g k (a, s))) = fld a) \<Longrightarrow> map fld (fst (ithread g k xs s)) = map fld xs"
proof (induction xs arbitrary: k s)
  case Nil
  then show ?case by simp
next
  case (Cons a as)
  obtain b s1 where g: "g k (a, s) = (b, s1)" by (cases "g k (a, s)")
  obtain bs s2 where t: "ithread g (Suc k) as s1 = (bs, s2)" by (cases "ithread g (Suc k) as s1")
  have "fld b = fld a" using Cons.prems [of k a s] g by simp
  moreover have "map fld bs = map fld as" using Cons.IH [OF Cons.prems, of "Suc k" s1] t by simp
  ultimately show ?case by (simp add: g t)
qed

lemma jstep_keeps: "keeps fld f \<Longrightarrow> fld (fst (jstep f k (a, s))) = fld a"
  by (simp add: keeps_def jstep_def split: prod.splits) (metis fst_conv)

lemma joints_loop_keeps:
  assumes "keeps fld f" "length (joint m) = MAX_DOF_PER_MECH"
  shows "map fld (joint (fst (loop_over_mech_joints (on_joint f) (m, s)))) = map fld (joint m)"
proof -
  obtain js s' where t: "ithread (jstep f) 0 (joint m) s = (js, s')"
    by (cases "ithread (jstep f) 0 (joint m) s")
  have "map fld (fst (ithread (jstep f) 0 (joint m) s)) = map fld (joint m)"
    by (rule ithread_keeps) (rule jstep_keeps [OF assms(1)])
  then show ?thesis by (simp add: joints_loop [OF assms(2)] t)
qed

lemma joints_loop_mtype:
  assumes "length (joint m) = MAX_DOF_PER_MECH"
  shows "mtype (fst (loop_over_mech_joints (on_joint f) (m, s))) = mtype m"
  by (simp add: joints_loop [OF assms] split: prod.splits)

lemma jpos_ref_loop_map:
  assumes "length (joint m) = MAX_DOF_PER_MECH"
  shows "jpos_ref_loop E tool_only (m, s) = (m\<lparr>joint := map (set_jpos_ref E tool_only) (joint m)\<rparr>, s)"
proof -
  have "ithread (jstep (\<lambda>j x. (set_jpos_ref E tool_only j, x))) 0 (joint m) s
          = (map (set_jpos_ref E tool_only) (joint m), s)"
    by (rule ithread_pure) (simp add: jstep_def)
  then show ?thesis by (simp add: jpos_ref_loop_def joints_loop [OF assms])
qed

lemma on_joint_mtype: "mtype (fst (on_joint f j (m, s))) = mtype m"
  by (simp add: on_joint_def split: prod.splits)

lemma fold_on_joint_mtype:
  "fold (\<lambda>j (m, s). on_joint (F (mtype m)) j (m, s)) ks (m, s) = fold (on_joint (F (mtype m))) ks (m, s)"
proof (induction ks arbitrary: m s)
  case Nil
  then show ?case by simp
next
  case (Cons k ks)
  obtain m1 s1 where o: "on_joint (F (mtype m)) k (m, s) = (m1, s1)"
    by (cases "on_joint (F (mtype m)) k (m, s)")
  have "mtype m1 = mtype m" using on_joint_mtype [of "F (mtype m)" k m s] o by simp
  then show ?case using Cons.IH [of m1 s1] by (simp add: o)
qed

lemma enc_offset_loop_eq:
  "enc_offset_loop E (m, s) = loop_over_mech_joints (on_joint (set_enc_offset E (mtype m))) (m, s)"
  by (simp add: enc_offset_loop_def loop_over_mech_joints_def fold_on_joint_mtype)

lemma set_enc_offset_keeps:
  assumes "keeps fld (resetFilter E)" "keeps fld (getStateLPF E)"
    and "\<And>j v. fld (j\<lparr>mpos := v\<rparr>) = fld j" "\<And>j v. fld (j\<lparr>enc_offset := v\<rparr>) = fld j"
  shows "keeps fld (set_enc_offset E a)"
  unfolding keeps_def
proof (intro allI)
  fix j x
  obtain j1 x1 where r: "resetFilter E (j\<lparr>mpos := mpos_d j\<rparr>) x = (j1, x1)"
    by (cases "resetFilter E (j\<lparr>mpos := mpos_d j\<rparr>) x")
  have "fld j1 = fld j" using assms(1,3) r by (metis fst_conv keeps_def)
  moreover have "fld (fst (getStateLPF E (j1\<lparr>enc_offset := enc_offset_of E a j1\<rparr>) x1)) = fld j1"
    using assms(2,4) by (simp add: keeps_def)
  ultimately show "fld (fst (set_enc_offset E a j x)) = fld j"
    by (simp add: set_enc_offset_def r)
qed

lemma set_joints_known_pos_keeps:
  assumes wf: "length (joint m) = MAX_DOF_PER_MECH"
    and frame: "calib_keeps fld E"
    and ins: "\<And>j v. fld (j\<lparr>mpos := v\<rparr>) = fld j" "\<And>j v. fld (j\<lparr>enc_offset := v\<rparr>) = fld j"
  shows "map fld (joint (fst (set_joints_known_pos E tool_only (m, s))))
           = map fld (map (set_jpos_ref E tool_only) (joint m))"
proof -
  let ?m1 = "m\<lparr>joint := map (set_jpos_ref E tool_only) (joint m)\<rparr>"
  obtain m2 x2 where c: "invMechCableCoupling E ?m1 1 (xstate s) = (m2, x2)"
    by (cases "invMechCableCoupling E ?m1 1 (xstate s)")
  obtain m3 s3 where e: "enc_offset_loop E (m2, s\<lparr>xstate := x2\<rparr>) = (m3, s3)"
    by (cases "enc_offset_loop E (m2, s\<lparr>xstate := x2\<rparr>)")
  obtain m4 x4 where f: "fwdMechCableCoupling E m3 (xstate s3) = (m4, x4)"
    by (cases "fwdMechCableCoupling E m3 (xstate s3)")
  have r: "fst (set_joints_known_pos E tool_only (m, s)) = m4"
    by (simp add: set_joints_known_pos_def jpos_ref_loop_map [OF wf] c e f)
  have 2: "map fld (joint m2) = map fld (joint ?m1)"
    using frame c by (metis calib_keeps_def mkeeps_def fst_conv)
  then have wf2: "length (joint m2) = MAX_DOF_PER_MECH"
    using wf by (metis length_map mechanism.select_convs(2) mechanism.surjective mechanism.update_convs(2))
  have k: "keeps fld (set_enc_offset E (mtype m2))"
    using frame ins by (intro set_enc_offset_keeps) (simp_all add: calib_keeps_def)
  have 3: "map fld (joint m3) = map fld (joint m2)"
    using joints_loop_keeps [OF k wf2, of "s\<lparr>xstate := x2\<rparr>"] e by (simp add: enc_offset_loop_eq)
  have 4: "map fld (joint m4) = map fld (joint m3)"
    using frame f by (metis calib_keeps_def mkeeps_def fst_conv)
  show ?thesis using r 2 3 4 by simp
qed

lemma joints_loop_nth:
  assumes "length (joint m) = MAX_DOF_PER_MECH" "k < MAX_DOF_PER_MECH"
  shows "\<exists>x. joint (fst (loop_over_mech_joints (on_joint f) (m, s))) ! k = fst (f (joint m ! k) x)"
proof -
  obtain js s' where t: "ithread (jstep f) 0 (joint m) s = (js, s')"
    by (cases "ithread (jstep f) 0 (joint m) s")
  from ithread_nth [of k "joint m" "jstep f" 0 s] assms obtain u where
    "js ! k = fst (jstep f k (joint m ! k, u))" by (auto simp: t)
  then have "js ! k = fst (f (joint m ! k) (xstate u))"
    by (simp add: jstep_def split: prod.splits)
  then show ?thesis by (auto simp: joints_loop [OF assms(1)] t)
qed

lemma joints_loop_length:
  assumes "length (joint m) = MAX_DOF_PER_MECH"
  shows "length (joint (fst (loop_over_mech_joints (on_joint f) (m, s)))) = length (joint m)"
  using ithread_length [of "jstep f" 0 "joint m" s]
  by (cases "ithread (jstep f) 0 (joint m) s") (simp add: joints_loop [OF assms])

lemma nth_of_map_eq:
  "map f xs = map f ys \<Longrightarrow> k < length ys \<Longrightarrow> f (xs ! k) = f (ys ! k)"
  by (metis length_map nth_map)

section \<open>The calibration routine\<close>

text \<open>
  C4. In \<^verbatim>\<open>set_joints_known_pos\<close>, for every joint of the mechanism: if \<open>tool_only\<close> is set
  and the joint is not a tool DOF, \<open>jpos_d\<close> is set to the home position of the joint type;
  if \<open>tool_only\<close> is not set and the joint is a tool DOF, \<open>jpos_d\<close> is set to the joint's
  measured \<open>jpos\<close>; otherwise \<open>jpos_d\<close> is set to the maximum position of the joint type and
  the state to \<open>homing1\<close>, and only in this last case does the state change. The statement
  is about the mechanism that the function returns, for cable-coupling and filter
  services that leave \<open>jpos_d\<close> and the state of every joint as they are.
\<close>

theorem set_joints_known_pos_targets:
  assumes wf: "length (joint m) = MAX_DOF_PER_MECH" and k: "k < MAX_DOF_PER_MECH"
    and frame: "calib_keeps (\<lambda>j. (jpos_d j, state j)) E"
  shows "let j = joint m ! k; j' = joint (fst (set_joints_known_pos E tool_only (m, s))) ! k in
           if tool_only \<noteq> 0 \<and> \<not> is_toolDOF E (type j)
           then jpos_d j' = home_position (DOF_types E (type j)) \<and> state j' = state j
           else if tool_only = 0 \<and> is_toolDOF E (type j)
           then jpos_d j' = jpos j \<and> state j' = state j
           else jpos_d j' = max_position (DOF_types E (type j)) \<and> state j' = jstate_homing1"
proof -
  let ?fld = "\<lambda>j::'a DOF. (jpos_d j, state j)"
  let ?m' = "fst (set_joints_known_pos E tool_only (m, s))"
  have eq: "map ?fld (joint ?m') = map ?fld (map (set_jpos_ref E tool_only) (joint m))"
    by (rule set_joints_known_pos_keeps [OF wf frame]) simp_all
  have "k < length (map (set_jpos_ref E tool_only) (joint m))" using wf k by simp
  from nth_of_map_eq [OF eq this]
  have "?fld (joint ?m' ! k) = ?fld (set_jpos_ref E tool_only (joint m ! k))"
    using wf k by simp
  then have j: "jpos_d (joint ?m' ! k) = jpos_d (set_jpos_ref E tool_only (joint m ! k))"
    and st: "state (joint ?m' ! k) = state (set_jpos_ref E tool_only (joint m ! k))"
    by simp_all
  show ?thesis
    unfolding Let_def j st by (simp add: set_jpos_ref_def)
qed

text \<open>The fields of the concrete environment, as rewrite rules.\<close>

lemma E0_fields:
  "RAVEN_II_SQUARE E0 = False" "RICKS_TOOLS E0 = False" "RL_INIT E0 = 1" "SL_AUTO_INIT E0 = 3"
  "DOF_types E0 t = \<lparr>home_position = 0, max_position = 1\<rparr>"
  "is_toolDOF E0 t = (4 \<le> t mod 8)"
  "tools_ready E0 m = (state (joint m ! TOOL_ROT) = jstate_ready \<and> state (joint m ! WRIST) = jstate_ready \<and>
                       state (joint m ! GRASP1) = jstate_ready \<and> state (joint m ! GRASP2) = jstate_ready)"
  "jvel_PI_control E0 j r x = (j, x)"
  "start_trajectory_mag E0 j a b x = (j, x)"
  "update_linear_sinusoid_position_trajectory E0 j x = (j\<lparr>jpos_d := jpos_d j + 1\<rparr>, x)"
  "start_trajectory E0 j a b x = (j, x)"
  "update_position_trajectory E0 j x = (1, j, x)"
  "stop_trajectory E0 j x = (j, x)"
  "invCableCoupling E0 d r x = (d\<lparr>mech := map couple (mech d)\<rparr>, x)"
  "mpos_PD_control E0 j x = (j\<lparr>tau_d := mpos_d j - mpos j\<rparr>, x)"
  "TorqueToDAC E0 d x = (d\<lparr>mech := map (\<lambda>m. m\<lparr>joint :=
       map (\<lambda>j. j\<lparr>current_cmd := trunc (1000 * tau_d j)\<rparr>) (joint m)\<rparr>) (mech d)\<rparr>, x)"
  "invMechCableCoupling E0 m r x = (couple m, x)"
  "resetFilter E0 j x = (j, x)"
  "getStateLPF E0 j x = (j, x)"
  "fwdMechCableCoupling E0 m x = (m, x)"
  "f_of_int E0 n = of_int n"
  "f_dec E0 n k = of_int n / 10 ^ k"
  "DEG2RAD E0 n = of_int n * 355 / (113 * 180)"
  "f_mul E0 u v = u * v"
  "f_sub E0 u v = u - v"
  "f_to_int E0 u = trunc u"
  "cc E0 = 652"
  by (simp_all add: E0_def)

lemma calib_keeps_E0:
  assumes "\<And>j v. fld (j\<lparr>mpos_d := v\<rparr>) = fld j"
  shows "calib_keeps fld E0"
  using assms by (simp add: calib_keeps_def mkeeps_def keeps_def E0_fields couple_def comp_def)

lemma M_tools_joints:
  "joint M_tools = [dof 0 jstate_not_ready 5000, dof 1 jstate_not_ready 5000,
                    dof 2 jstate_not_ready 5000, dof 3 jstate_not_ready 5000,
                    dof 4 jstate_hard_stop 5000, dof 5 jstate_hard_stop 5000,
                    dof 6 jstate_hard_stop 5000, dof 7 jstate_hard_stop 5000]"
  by (simp add: M_tools_def gold_mech_def)

theorem set_joints_known_pos_targets_witness:
  "length (joint M_tools) = MAX_DOF_PER_MECH \<and> calib_keeps (\<lambda>j. (jpos_d j, state j)) E0
   \<and> jpos_d (joint (fst (set_joints_known_pos E0 1 (M_tools, hstate0))) ! 4) = 1
   \<and> state (joint (fst (set_joints_known_pos E0 1 (M_tools, hstate0))) ! 4) = jstate_homing1
   \<and> jpos_d (joint (fst (set_joints_known_pos E0 1 (M_tools, hstate0))) ! 0) = 0
   \<and> state (joint (fst (set_joints_known_pos E0 1 (M_tools, hstate0))) ! 0) = jstate_not_ready
   \<and> jpos_d (joint (fst (set_joints_known_pos E0 0 (M_tools, hstate0))) ! 4) = 0
   \<and> state (joint (fst (set_joints_known_pos E0 0 (M_tools, hstate0))) ! 4) = jstate_hard_stop"
proof -
  have wf: "length (joint M_tools) = MAX_DOF_PER_MECH"
    by (simp add: M_tools_joints MAX_DOF_PER_MECH_def)
  have fr: "calib_keeps (\<lambda>j. (jpos_d j, state j)) E0"
    by (rule calib_keeps_E0) simp
  have k: "4 < MAX_DOF_PER_MECH" "0 < MAX_DOF_PER_MECH" by (simp_all add: MAX_DOF_PER_MECH_def)
  show ?thesis
    using set_joints_known_pos_targets [OF wf k(1) fr, of 1 hstate0]
          set_joints_known_pos_targets [OF wf k(2) fr, of 1 hstate0]
          set_joints_known_pos_targets [OF wf k(1) fr, of 0 hstate0] wf fr
    by (simp add: M_tools_joints dof_def E0_fields Let_def)
qed

lemma enc_offset_of_cong:
  "type j' = type j \<Longrightarrow> enc_val j' = enc_val j \<Longrightarrow> mpos_d j' = mpos_d j \<Longrightarrow>
     enc_offset_of E a j' = enc_offset_of E a j"
  by (simp add: enc_offset_of_def enc_reversed_def)

lemma set_enc_offset_value:
  assumes r: "keeps (\<lambda>j. (type j, enc_val j, mpos_d j)) (resetFilter E)"
    and g: "keeps enc_offset (getStateLPF E)"
  shows "enc_offset (fst (set_enc_offset E a j x)) = enc_offset_of E a j"
proof -
  obtain j1 x1 where rf: "resetFilter E (j\<lparr>mpos := mpos_d j\<rparr>) x = (j1, x1)"
    by (cases "resetFilter E (j\<lparr>mpos := mpos_d j\<rparr>) x")
  have "(type j1, enc_val j1, mpos_d j1) =
          (type (j\<lparr>mpos := mpos_d j\<rparr>), enc_val (j\<lparr>mpos := mpos_d j\<rparr>), mpos_d (j\<lparr>mpos := mpos_d j\<rparr>))"
    using r rf unfolding keeps_def by (metis fst_conv)
  then have "enc_offset_of E a j1 = enc_offset_of E a j"
    by (intro enc_offset_of_cong) simp_all
  moreover have "enc_offset (fst (getStateLPF E (j1\<lparr>enc_offset := enc_offset_of E a j1\<rparr>) x1))
                   = enc_offset_of E a j1"
    using g by (simp add: keeps_def)
  ultimately show ?thesis by (simp add: set_enc_offset_def rf)
qed

text \<open>
  C5, amended. Every call of \<^verbatim>\<open>set_joints_known_pos\<close> recomputes \<open>enc_offset\<close> of every joint
  of the mechanism, the joints of the group being calibrated and the others alike,
  whatever \<open>tool_only\<close> is: it is the value \<open>enc_offset_of\<close> computed from the arm type, the
  joint type, \<open>enc_val\<close> and the \<open>mpos_d\<close> that the inverse cable coupling produced, and it
  does not depend on the previous \<open>enc_offset\<close>. This holds for services that keep the
  fields named in the hypotheses.
\<close>

theorem enc_offset_every_joint:
  assumes wf: "length (joint m) = MAX_DOF_PER_MECH" and k: "k < MAX_DOF_PER_MECH"
    and c: "mkeeps type (\<lambda>m. invMechCableCoupling E m 1)"
    and r: "keeps (\<lambda>j. (type j, enc_val j, mpos_d j)) (resetFilter E)"
    and g: "keeps enc_offset (getStateLPF E)"
    and f: "mkeeps enc_offset (fwdMechCableCoupling E)"
  shows "(let m2 = fst (invMechCableCoupling E
                         (m\<lparr>joint := map (set_jpos_ref E tool_only) (joint m)\<rparr>) 1 (xstate s))
          in enc_offset (joint (fst (set_joints_known_pos E tool_only (m, s))) ! k)
               = enc_offset_of E (mtype m2) (joint m2 ! k))
         \<and> (\<forall>a j v. enc_offset_of E a (j\<lparr>enc_offset := v\<rparr>) = enc_offset_of E a j)"
proof -
  let ?m1 = "m\<lparr>joint := map (set_jpos_ref E tool_only) (joint m)\<rparr>"
  obtain m2 x2 where ic: "invMechCableCoupling E ?m1 1 (xstate s) = (m2, x2)"
    by (cases "invMechCableCoupling E ?m1 1 (xstate s)")
  obtain m3 s3 where e: "enc_offset_loop E (m2, s\<lparr>xstate := x2\<rparr>) = (m3, s3)"
    by (cases "enc_offset_loop E (m2, s\<lparr>xstate := x2\<rparr>)")
  obtain m4 x4 where fc: "fwdMechCableCoupling E m3 (xstate s3) = (m4, x4)"
    by (cases "fwdMechCableCoupling E m3 (xstate s3)")
  have res: "fst (set_joints_known_pos E tool_only (m, s)) = m4"
    by (simp add: set_joints_known_pos_def jpos_ref_loop_map [OF wf] ic e fc)
  have "map type (joint m2) = map type (joint ?m1)"
    using c ic unfolding mkeeps_def by (metis fst_conv)
  then have "length (joint m2) = length (joint ?m1)" by (metis length_map)
  then have wf2: "length (joint m2) = MAX_DOF_PER_MECH" using wf by simp
  from joints_loop_nth [OF wf2 k, of "set_enc_offset E (mtype m2)" "s\<lparr>xstate := x2\<rparr>"]
  obtain x where "joint m3 ! k = fst (set_enc_offset E (mtype m2) (joint m2 ! k) x)"
    using e by (auto simp: enc_offset_loop_eq)
  then have 3: "enc_offset (joint m3 ! k) = enc_offset_of E (mtype m2) (joint m2 ! k)"
    by (simp add: set_enc_offset_value [OF r g])
  have eq4: "map enc_offset (joint m4) = map enc_offset (joint m3)"
    using f fc unfolding mkeeps_def by (metis fst_conv)
  have len3: "length (joint m3) = MAX_DOF_PER_MECH"
    using joints_loop_length [OF wf2, of "set_enc_offset E (mtype m2)" "s\<lparr>xstate := x2\<rparr>"] e wf2
    by (simp add: enc_offset_loop_eq)
  have "length (joint m4) = length (joint m3)" using eq4 by (metis length_map)
  then have "enc_offset (joint m4 ! k) = enc_offset (joint m3 ! k)"
    using eq4 k len3 by (metis nth_map)
  then show ?thesis
    using 3 by (simp add: res ic Let_def enc_offset_of_def enc_reversed_def)
qed

theorem enc_offset_every_joint_witness:
  "length (joint M_tools) = MAX_DOF_PER_MECH \<and> SHOULDER < MAX_DOF_PER_MECH
   \<and> mkeeps type (\<lambda>m. invMechCableCoupling E0 m 1)
   \<and> keeps (\<lambda>j. (type j, enc_val j, mpos_d j)) (resetFilter E0)
   \<and> keeps enc_offset (getStateLPF E0)
   \<and> mkeeps enc_offset (fwdMechCableCoupling E0)
   \<and> enc_offset (joint (fst (set_joints_known_pos E0 1 (M_tools, hstate0))) ! SHOULDER) = - 5000"
proof -
  have wf: "length (joint M_tools) = MAX_DOF_PER_MECH"
    by (simp add: M_tools_joints MAX_DOF_PER_MECH_def)
  have k: "SHOULDER < MAX_DOF_PER_MECH" by (simp add: MAX_DOF_PER_MECH_def SHOULDER_def)
  have c: "mkeeps type (\<lambda>m. invMechCableCoupling E0 m 1)"
    by (simp add: mkeeps_def E0_fields couple_def comp_def)
  have r: "keeps (\<lambda>j. (type j, enc_val j, mpos_d j)) (resetFilter E0)"
    by (simp add: keeps_def E0_fields)
  have g: "keeps enc_offset (getStateLPF E0)" by (simp add: keeps_def E0_fields)
  have f: "mkeeps enc_offset (fwdMechCableCoupling E0)" by (simp add: mkeeps_def E0_fields)
  show ?thesis
    using enc_offset_every_joint [OF wf k c r g f, of 1 hstate0] wf k c r g f
    by (simp add: Let_def M_tools_def gold_mech_def E0_fields couple_def set_jpos_ref_def
          enc_offset_of_def enc_reversed_def trunc_def dof_def SHOULDER_def)
qed

text \<open>
  The definitions needed to run \<^verbatim>\<open>set_joints_known_pos\<close> on a concrete mechanism.
\<close>

lemma upt8:
  "[0..<8] = [0, Suc 0, Suc (Suc 0), Suc (Suc (Suc 0)), Suc (Suc (Suc (Suc 0))),
              Suc (Suc (Suc (Suc (Suc 0)))), Suc (Suc (Suc (Suc (Suc (Suc 0))))),
              Suc (Suc (Suc (Suc (Suc (Suc (Suc 0))))))]"
  by (simp add: upt_rec)

lemmas calib_eval =
  set_joints_known_pos_def jpos_ref_loop_def enc_offset_loop_def loop_over_mech_joints_def
  on_joint_def set_jpos_ref_def set_enc_offset_def enc_offset_of_def enc_reversed_def
  MAX_DOF_PER_MECH_def E0_fields couple_def trunc_def dof_def hstate0_def upt8

text \<open>
  C5 as stated fails. When the tool group of a gold arm is calibrated (\<open>tool_only\<close> = 1), the
  encoder offset of the shoulder, which is not a tool joint and is not calibrated in this
  pass (its state stays \<open>not_ready\<close>), is recomputed from 0 to -5000; the call for the
  positioning group then recomputes it again, to -5652.
\<close>

theorem enc_offset_counterexample:
  "\<not> is_toolDOF E0 (type (joint M_tools ! SHOULDER))
   \<and> enc_offset (joint M_tools ! SHOULDER) = 0
   \<and> enc_offset (joint (fst (set_joints_known_pos E0 1 (M_tools, hstate0))) ! SHOULDER) = - 5000
   \<and> state (joint (fst (set_joints_known_pos E0 1 (M_tools, hstate0))) ! SHOULDER) = jstate_not_ready
   \<and> enc_offset (joint (fst (set_joints_known_pos E0 0
         (set_joints_known_pos E0 1 (M_tools, hstate0)))) ! SHOULDER) = - 5652"
  by (simp add: M_tools_def gold_mech_def SHOULDER_def calib_eval
        del: upt_rec_numeral cong: prod.case_cong_weak)

section \<open>The kept state through a tick\<close>

lemma loop_mech_snd_inv:
  assumes "\<And>j m s. P s \<Longrightarrow> P (snd (body j (m, s)))" and "P s"
  shows "P (snd (loop_over_mech_joints body (m, s)))"
proof -
  have "P (snd (fold body ks (m, s)))" for ks
    using assms(2)
  proof (induction ks arbitrary: m s)
    case Nil
    then show ?case by simp
  next
    case (Cons k ks)
    obtain m1 s1 where b: "body k (m, s) = (m1, s1)" by (cases "body k (m, s)")
    have "P s1" using assms(1) [OF Cons.prems, of k m] b by simp
    then show ?case using Cons.IH [of s1 m1] by (simp add: b)
  qed
  then show ?thesis by (simp add: loop_over_mech_joints_def)
qed

lemma ithread_snd_inv:
  assumes "\<And>k a s. P s \<Longrightarrow> P (snd (g k (a, s)))" and "P s"
  shows "P (snd (ithread g k xs s))"
  using assms(2)
proof (induction xs arbitrary: k s)
  case Nil
  then show ?case by simp
next
  case (Cons a as)
  obtain b s1 where g: "g k (a, s) = (b, s1)" by (cases "g k (a, s)")
  have "P s1" using assms(1) [OF Cons.prems, of k a] g by simp
  from Cons.IH [OF this, of "Suc k"] show ?case by (auto simp add: g split: prod.splits)
qed

lemma loop_dev_snd_inv:
  assumes "\<And>i j m s. P s \<Longrightarrow> P (snd (body i j (m, s)))" and "P s"
  shows "P (snd (loop_over_joints body (d, s)))"
proof -
  have "P (snd (ithread (\<lambda>i. loop_over_mech_joints (body i)) 0 (mech d) s))"
  proof (rule ithread_snd_inv [where P = P, OF _ assms(2)])
    fix k a s assume "P s"
    then show "P (snd (loop_over_mech_joints (body k) (a, s)))"
      by (rule loop_mech_snd_inv [where P = P, rotated]) (rule assms(1))
  qed
  then show ?thesis by (auto simp add: mechs_loop split: prod.splits)
qed

lemma on_joint_xfree: "xfree P \<Longrightarrow> P s \<Longrightarrow> P (snd (on_joint f j (m, s)))"
  by (simp add: xfree_def on_joint_def split: prod.splits)


lemma ricks_tools_xfree: "xfree P \<Longrightarrow> P s \<Longrightarrow> P (snd (ricks_tools E (d, s)))"
  unfolding ricks_tools_def
  by (rule loop_dev_snd_inv [where P = P]) (simp_all add: on_joint_xfree)









lemmas tick_eval =
  raven_homing_def check_limits_def check_joint_def mech_finished_def group_at_hard_stop_def
  found_limit_def control_outputs_def motion_commands_def motion_command_def init_homing_def
  init_loop_def init_joint_def homing_def homing2_case_def check_homing_condition_def
  homing_max_dac_def loop_over_joints_def on_mech_def
  SHOULDER_def ELBOW_def Z_INS_def TOOL_ROT_def WRIST_def GRASP1_def GRASP2_def
  init_params_def held_def calib_eval

section \<open>The settle delay\<close>





lemma run_append: "run E (xs @ ys) ds = run E ys (run E xs ds)"
  by (simp add: run_def)

lemma run_single: "run E [(gTime, currParams, begin_homing)] ds = raven_homing E gTime currParams begin_homing ds"
  by (simp add: run_def)


lemma ticks_Suc: "ticks n (Suc n) = [(of_nat n, init_params, 0)]"
  by (simp add: ticks_def)

lemma ticks_split: "a \<le> b \<Longrightarrow> b \<le> c \<Longrightarrow> ticks a c = ticks a b @ ticks b c"
  using upt_add_eq_append [of a b "c - b"] by (simp add: ticks_def)











section \<open>One settle timer for all mechanisms\<close>







section \<open>The command of a joint at its hard stop\<close>

lemma raven_homing_active:
  assumes "runlevel currParams = RL_INIT E" "sublevel currParams = SL_AUTO_INIT E"
    and "\<not> gTime - delay s < 1000"
  shows "raven_homing E gTime currParams begin_homing (d, s) =
           check_limits E gTime (dac_stage E currParams begin_homing (d, s))"
proof -
  obtain d0 s0 where r: "(if RICKS_TOOLS E then ricks_tools E (d, s) else (d, s)) = (d0, s0)"
    by (cases "if RICKS_TOOLS E then ricks_tools E (d, s) else (d, s)")
  have x: "xfree (\<lambda>s' :: 'b hstate. delay s' = delay s)" by (simp add: xfree_def)
  have "delay s0 = delay s"
    using ricks_tools_xfree [OF x, of s E d] r by (cases "RICKS_TOOLS E") simp_all
  then show ?thesis
    using assms by (simp add: raven_homing_def dac_stage_def r)
qed

lemma check_limits_nth:
  assumes "i < length (mech d)"
  shows "\<exists>t. mech (fst (check_limits E gTime (d, s))) ! i =
              fst (mech_finished E gTime i
                     (loop_over_mech_joints (on_joint (found_limit E)) (mech d ! i, t)))"
proof -
  let ?g = "\<lambda>i. loop_over_mech_joints (check_joint E gTime i)"
  obtain ms s' where t: "ithread ?g 0 (mech d) s = (ms, s')"
    by (cases "ithread ?g 0 (mech d) s")
  from ithread_nth [OF assms, of ?g 0 s] obtain u where
    "ms ! i = fst (?g i (mech d ! i, u))" by (auto simp: t)
  then show ?thesis
    by (auto simp add: check_limits_def mechs_loop t check_loop_mech)
qed

lemma check_limits_length:
  "length (mech (fst (check_limits E gTime (d, s)))) = length (mech d)"
  using ithread_length [of "\<lambda>i. loop_over_mech_joints (check_joint E gTime i)" 0 "mech d" s]
  by (cases "ithread (\<lambda>i. loop_over_mech_joints (check_joint E gTime i)) 0 (mech d) s")
     (simp add: check_limits_def mechs_loop)

lemma mech_finished_fst:
  "fst (mech_finished E gTime i (m, s)) = m \<or>
   (\<exists>tool_only s'. fst (mech_finished E gTime i (m, s)) = fst (set_joints_known_pos E tool_only (m, s')))"
  by (auto simp add: mech_finished_def Let_def split: prod.splits) (metis fst_conv)+

lemma found_limit_cmd:
  assumes "keeps (\<lambda>j. (state j, current_cmd j)) (stop_trajectory E)"
  shows "current_cmd (fst (found_limit E j x)) =
           (if check_homing_condition (RAVEN_II_SQUARE E) j \<noteq> 0 then 0 else current_cmd j)"
    and "check_homing_condition (RAVEN_II_SQUARE E) j \<noteq> 0 \<Longrightarrow>
           state (fst (found_limit E j x)) = jstate_hard_stop"
proof -
  have "(state (fst (stop_trajectory E (j\<lparr>state := jstate_hard_stop, current_cmd := 0\<rparr>) x)),
         current_cmd (fst (stop_trajectory E (j\<lparr>state := jstate_hard_stop, current_cmd := 0\<rparr>) x)))
        = (jstate_hard_stop, 0)"
    using assms unfolding keeps_def by simp
  then show "current_cmd (fst (found_limit E j x)) =
           (if check_homing_condition (RAVEN_II_SQUARE E) j \<noteq> 0 then 0 else current_cmd j)"
    and "check_homing_condition (RAVEN_II_SQUARE E) j \<noteq> 0 \<Longrightarrow>
           state (fst (found_limit E j x)) = jstate_hard_stop"
    by (simp_all add: found_limit_def)
qed

lemma found_limit_hard_stop: "state j = jstate_hard_stop \<Longrightarrow> found_limit E j x = (j, x)"
  by (simp add: found_limit_def check_homing_condition_def)

lemma check_limits_cmd:
  assumes wf: "length (joint (mech d ! i)) = MAX_DOF_PER_MECH"
    and i: "i < length (mech d)" and k: "k < MAX_DOF_PER_MECH"
    and st: "keeps (\<lambda>j. (state j, current_cmd j)) (stop_trajectory E)"
    and cal: "calib_keeps current_cmd E"
  shows "current_cmd (joint (mech (fst (check_limits E gTime (d, s))) ! i) ! k) =
           (if check_homing_condition (RAVEN_II_SQUARE E) (joint (mech d ! i) ! k) \<noteq> 0 then 0
            else current_cmd (joint (mech d ! i) ! k))"
proof -
  let ?m = "mech d ! i"
  from check_limits_nth [OF i, of E gTime s] obtain t where
    r: "mech (fst (check_limits E gTime (d, s))) ! i =
          fst (mech_finished E gTime i (loop_over_mech_joints (on_joint (found_limit E)) (?m, t)))"
    by blast
  obtain m1 t1 where l: "loop_over_mech_joints (on_joint (found_limit E)) (?m, t) = (m1, t1)"
    by (cases "loop_over_mech_joints (on_joint (found_limit E)) (?m, t)")
  from joints_loop_nth [OF wf k, of "found_limit E" t] obtain x where
    "joint m1 ! k = fst (found_limit E (joint ?m ! k) x)" by (auto simp: l)
  then have c1: "current_cmd (joint m1 ! k) =
      (if check_homing_condition (RAVEN_II_SQUARE E) (joint ?m ! k) \<noteq> 0 then 0
       else current_cmd (joint ?m ! k))"
    by (simp add: found_limit_cmd(1) [OF st])
  have wf1: "length (joint m1) = MAX_DOF_PER_MECH"
    using joints_loop_length [OF wf, of "found_limit E" t] wf by (simp add: l)
  let ?m' = "fst (mech_finished E gTime i (m1, t1))"
  have "current_cmd (joint ?m' ! k) = current_cmd (joint m1 ! k)"
  proof -
    consider "?m' = m1"
      | tool_only s' where "?m' = fst (set_joints_known_pos E tool_only (m1, s'))"
      using mech_finished_fst [of E gTime i m1 t1] by blast
    then show ?thesis
    proof cases
      case 1
      then show ?thesis by simp
    next
      case 2
      have "map current_cmd (joint ?m') = map current_cmd (map (set_jpos_ref E tool_only) (joint m1))"
        unfolding 2 by (rule set_joints_known_pos_keeps [OF wf1 cal]) simp_all
      also have "\<dots> = map current_cmd (joint m1)"
        by (simp add: set_jpos_ref_def comp_def)
      finally show ?thesis
        using k wf1 by (intro nth_of_map_eq) simp_all
    qed
  qed
  then show ?thesis using c1 by (simp add: r l)
qed

text \<open>
  C7, amended. In the tick in which a joint is detected at its hard stop, its state is set
  to \<open>hard_stop\<close> and its \<open>current_cmd\<close> to 0, and the command is 0 at the end of that
  tick. On later ticks \<^verbatim>\<open>TorqueToDAC\<close> writes \<open>current_cmd\<close> of every joint again, and the
  limit check leaves a joint that is already in \<open>hard_stop\<close> as it is: at the end of a tick
  the command of a joint that was not detected in this tick is the value that
  \<^verbatim>\<open>TorqueToDAC\<close> computed, not 0. This holds when \<^verbatim>\<open>stop_trajectory\<close> keeps state and
  command and the calibration services keep the command.
\<close>

theorem hard_stop_command:
  assumes st: "keeps (\<lambda>j. (state j, current_cmd j)) (stop_trajectory E)"
    and cal: "calib_keeps current_cmd E"
    and act: "runlevel currParams = RL_INIT E" "sublevel currParams = SL_AUTO_INIT E"
      "\<not> gTime - delay s < 1000"
    and i: "i < length (mech (fst (dac_stage E currParams begin_homing (d, s))))"
    and wf: "length (joint (mech (fst (dac_stage E currParams begin_homing (d, s))) ! i))
               = MAX_DOF_PER_MECH"
    and k: "k < MAX_DOF_PER_MECH"
  shows "(let j = joint (mech (fst (dac_stage E currParams begin_homing (d, s))) ! i) ! k;
              j' = joint (mech (fst (raven_homing E gTime currParams begin_homing (d, s))) ! i) ! k
          in current_cmd j' =
               (if check_homing_condition (RAVEN_II_SQUARE E) j \<noteq> 0 then 0 else current_cmd j)
             \<and> (state j = jstate_hard_stop \<longrightarrow> current_cmd j' = current_cmd j))
         \<and> (\<forall>j x. check_homing_condition (RAVEN_II_SQUARE E) j \<noteq> 0 \<longrightarrow>
                state (fst (found_limit E j x)) = jstate_hard_stop \<and>
                current_cmd (fst (found_limit E j x)) = 0)
         \<and> (\<forall>j x. state j = jstate_hard_stop \<longrightarrow> found_limit E j x = (j, x))"
proof -
  obtain d1 s1 where ds: "dac_stage E currParams begin_homing (d, s) = (d1, s1)"
    by (cases "dac_stage E currParams begin_homing (d, s)")
  have "current_cmd (joint (mech (fst (check_limits E gTime (d1, s1))) ! i) ! k) =
           (if check_homing_condition (RAVEN_II_SQUARE E) (joint (mech d1 ! i) ! k) \<noteq> 0 then 0
            else current_cmd (joint (mech d1 ! i) ! k))"
    using i wf by (intro check_limits_cmd [OF _ _ k st cal]) (simp_all add: ds)
  then show ?thesis
    by (simp add: raven_homing_active [OF act] ds Let_def found_limit_cmd [OF st]
          found_limit_hard_stop check_homing_condition_def)
qed

lemma tool_dac: "dac_stage E0 init_params 0 S_tool0 = S_tool_dac"
  by (simp add: S_tool0_def S_tool_dac_def dac_stage_def tick_eval Let_def del: upt_rec_numeral
        cong: prod.case_cong_weak let_weak_cong)

lemma tool_1000: "raven_homing E0 1000 init_params 0 S_tool0 = S_tool1"
  by (simp add: S_tool0_def S_tool1_def tick_eval Let_def del: upt_rec_numeral
        cong: prod.case_cong_weak let_weak_cong)

lemma tool_1001: "raven_homing E0 1001 init_params 0 S_tool1 = S_tool2"
  by (simp add: S_tool1_def S_tool2_def tick_eval Let_def del: upt_rec_numeral
        cong: prod.case_cong_weak let_weak_cong)

theorem hard_stop_command_witness:
  "keeps (\<lambda>j. (state j, current_cmd j)) (stop_trajectory E0) \<and> calib_keeps current_cmd E0
   \<and> runlevel init_params = RL_INIT E0 \<and> sublevel init_params = SL_AUTO_INIT E0
   \<and> \<not> (1000 :: tick) - delay (snd S_tool0) < 1000
   \<and> check_homing_condition (RAVEN_II_SQUARE E0)
        (joint (mech (fst (dac_stage E0 init_params 0 S_tool0)) ! 0) ! TOOL_ROT) = 1
   \<and> current_cmd (joint (mech (fst (raven_homing E0 1000 init_params 0 S_tool0)) ! 0) ! TOOL_ROT) = 0
   \<and> current_cmd (joint (mech (fst (raven_homing E0 1000 init_params 0 S_tool0)) ! 0) ! SHOULDER) = 0"
proof -
  have st: "keeps (\<lambda>j. (state j, current_cmd j)) (stop_trajectory E0)"
    by (simp add: keeps_def E0_fields)
  have cal: "calib_keeps current_cmd E0" by (rule calib_keeps_E0) simp
  have act: "runlevel init_params = RL_INIT E0" "sublevel init_params = SL_AUTO_INIT E0"
    "\<not> (1000 :: tick) - delay (snd S_tool0) < 1000"
    by (simp_all add: init_params_def E0_fields S_tool0_def hstate0_def)
  have i: "0 < length (mech (fst (dac_stage E0 init_params 0 (fst S_tool0, snd S_tool0))))"
    and wf: "length (joint (mech (fst (dac_stage E0 init_params 0 (fst S_tool0, snd S_tool0))) ! 0))
               = MAX_DOF_PER_MECH"
    by (simp_all add: tool_dac S_tool_dac_def MAX_DOF_PER_MECH_def)
  have k: "TOOL_ROT < MAX_DOF_PER_MECH" "SHOULDER < MAX_DOF_PER_MECH"
    by (simp_all add: MAX_DOF_PER_MECH_def TOOL_ROT_def SHOULDER_def)
  have c: "check_homing_condition (RAVEN_II_SQUARE E0)
        (joint (mech (fst (dac_stage E0 init_params 0 S_tool0)) ! 0) ! TOOL_ROT) = 1"
     "check_homing_condition (RAVEN_II_SQUARE E0)
        (joint (mech (fst (dac_stage E0 init_params 0 S_tool0)) ! 0) ! SHOULDER) = 0"
     "current_cmd (joint (mech (fst (dac_stage E0 init_params 0 S_tool0)) ! 0) ! SHOULDER) = 0"
    by (simp_all add: tool_dac S_tool_dac_def E0_fields check_homing_condition_def homing_max_dac_def
          held_def dof_def TOOL_ROT_def SHOULDER_def)
  show ?thesis
    using hard_stop_command [OF st cal act(1,2) _ i wf k(1), of 1000] 
          hard_stop_command [OF st cal act(1,2) _ i wf k(2), of 1000] act(3) c st cal act(1,2)
    by (simp add: Let_def)
qed

text \<open>
  C7 as stated fails. The tool-rotation joint of a gold arm is detected at its hard stop in
  the tick at time 1000: its state becomes \<open>hard_stop\<close> and its command 0. After the next
  tick, at time 1001, the joint is still in \<open>hard_stop\<close> (no state transition), and its
  command is 2000.
\<close>

theorem hard_stop_command_counterexample:
  "state (joint (mech (fst S_tool0) ! 0) ! TOOL_ROT) = jstate_pos_unknown
   \<and> state (joint (mech (fst (run E0 (ticks 1000 1001) S_tool0)) ! 0) ! TOOL_ROT) = jstate_hard_stop
   \<and> current_cmd (joint (mech (fst (run E0 (ticks 1000 1001) S_tool0)) ! 0) ! TOOL_ROT) = 0
   \<and> state (joint (mech (fst (run E0 (ticks 1000 1002) S_tool0)) ! 0) ! TOOL_ROT) = jstate_hard_stop
   \<and> current_cmd (joint (mech (fst (run E0 (ticks 1000 1002) S_tool0)) ! 0) ! TOOL_ROT) = 2000"
proof -
  have 1: "run E0 (ticks 1000 1001) S_tool0 = S_tool1"
    using tool_1000 by (simp add: ticks_Suc [of 1000, simplified] run_single)
  have "ticks 1000 1002 = ticks 1000 1001 @ ticks 1001 1002" by (rule ticks_split) simp_all
  then have 2: "run E0 (ticks 1000 1002) S_tool0 = S_tool2"
    using tool_1001 by (simp add: run_append 1 ticks_Suc [of 1001, simplified] run_single)
  show ?thesis
    by (simp add: 1 2) (simp add: S_tool0_def S_tool1_def S_tool2_def held_def dof_def TOOL_ROT_def)
qed

section \<open>The reset pass\<close>








lemma init_loop_inited: "mech d \<noteq> [] \<Longrightarrow> homing_inited (snd (init_loop E (d, s))) = 1"
  by (simp add: init_loop_def split: prod.splits)


































section \<open>The calibration round trip\<close>

lemma trunc_near: "\<bar>v - of_int (trunc v)\<bar> < 1"
  unfolding trunc_def by (auto simp add: abs_if) linarith+

lemma enc_offset_of_exact:
  assumes "exact_floats E"
  shows "enc_offset_of E a j =
           trunc ((if enc_reversed E a j then - 1 else 1) * of_int (enc_val j) - mpos_d j * cc E)"
  using assms by (simp add: exact_floats_def enc_offset_of_def)

lemma round_trip_exact:
  assumes "exact_floats E"
  shows "\<bar>(1 / cc E) * ((if enc_reversed E a j then - 1 else 1) * of_int (enc_val j)
                          - of_int (enc_offset_of E a j)) - mpos_d j\<bar> < 1 / cc E"
proof -
  let ?v = "(if enc_reversed E a j then - 1 else 1) * of_int (enc_val j) - mpos_d j * cc E"
  have c: "0 < cc E" using assms by (simp add: exact_floats_def)
  have "(1 / cc E) * ((if enc_reversed E a j then - 1 else 1) * of_int (enc_val j)
                        - of_int (trunc ?v)) - mpos_d j
        = (?v - of_int (trunc ?v)) / cc E"
    using c by (simp add: field_simps)
  moreover have "\<bar>(?v - of_int (trunc ?v)) / cc E\<bar> < 1 / cc E"
    using trunc_near [of ?v] c by (simp add: divide_strict_right_mono)
  ultimately show ?thesis
    by (simp only: enc_offset_of_exact [OF assms])
qed

lemma keeps_fields4:
  assumes "keeps (\<lambda>j. (type j, enc_val j, mpos_d j, enc_offset j)) f"
  shows "keeps (\<lambda>j. (type j, enc_val j, mpos_d j)) f" "keeps enc_offset f"
  using assms by (simp_all add: keeps_def)

lemma calibrated_joint:
  fixes E :: "('f, 'x) ext"
  assumes wf: "length (joint m) = MAX_DOF_PER_MECH" and k: "k < MAX_DOF_PER_MECH"
    and c: "mkeeps type (\<lambda>m. invMechCableCoupling E m 1)"
    and r: "keeps (\<lambda>j. (type j, enc_val j, mpos_d j)) (resetFilter E)"
    and g: "keeps (\<lambda>j. (type j, enc_val j, mpos_d j, enc_offset j)) (getStateLPF E)"
    and f: "mkeeps (\<lambda>j. (type j, enc_val j, mpos_d j, enc_offset j)) (fwdMechCableCoupling E)"
  shows "enc_offset (joint (fst (set_joints_known_pos E tool_only (m, s))) ! k) =
         enc_offset_of E
           (mtype (fst (invMechCableCoupling E
                          (m\<lparr>joint := map (set_jpos_ref E tool_only) (joint m)\<rparr>) 1 (xstate s))))
           (joint (fst (set_joints_known_pos E tool_only (m, s))) ! k)"
proof -
  let ?fld = "\<lambda>j :: 'f DOF. (type j, enc_val j, mpos_d j, enc_offset j)"
  let ?m1 = "m\<lparr>joint := map (set_jpos_ref E tool_only) (joint m)\<rparr>"
  obtain m2 x2 where ic: "invMechCableCoupling E ?m1 1 (xstate s) = (m2, x2)"
    by (cases "invMechCableCoupling E ?m1 1 (xstate s)")
  obtain m3 s3 where e: "enc_offset_loop E (m2, s\<lparr>xstate := x2\<rparr>) = (m3, s3)"
    by (cases "enc_offset_loop E (m2, s\<lparr>xstate := x2\<rparr>)")
  obtain m4 x4 where fc: "fwdMechCableCoupling E m3 (xstate s3) = (m4, x4)"
    by (cases "fwdMechCableCoupling E m3 (xstate s3)")
  have res: "fst (set_joints_known_pos E tool_only (m, s)) = m4"
    by (simp add: set_joints_known_pos_def jpos_ref_loop_map [OF wf] ic e fc)
  have "map type (joint m2) = map type (joint ?m1)"
    using c ic unfolding mkeeps_def by (metis fst_conv)
  then have "length (joint m2) = length (joint ?m1)" by (metis length_map)
  then have wf2: "length (joint m2) = MAX_DOF_PER_MECH" using wf by simp
  from joints_loop_nth [OF wf2 k, of "set_enc_offset E (mtype m2)" "s\<lparr>xstate := x2\<rparr>"]
  obtain x where j3: "joint m3 ! k = fst (set_enc_offset E (mtype m2) (joint m2 ! k) x)"
    using e by (auto simp: enc_offset_loop_eq)
  have o3: "enc_offset (joint m3 ! k) = enc_offset_of E (mtype m2) (joint m2 ! k)"
    unfolding j3 by (rule set_enc_offset_value [OF r keeps_fields4(2) [OF g]])
  have "keeps (\<lambda>j. (type j, enc_val j, mpos_d j)) (set_enc_offset E (mtype m2))"
    by (rule set_enc_offset_keeps [OF r keeps_fields4(1) [OF g]]) simp_all
  then have f3: "(type (joint m3 ! k), enc_val (joint m3 ! k), mpos_d (joint m3 ! k)) =
                 (type (joint m2 ! k), enc_val (joint m2 ! k), mpos_d (joint m2 ! k))"
    by (simp add: keeps_def j3)
  have len3: "length (joint m3) = MAX_DOF_PER_MECH"
    using joints_loop_length [OF wf2, of "set_enc_offset E (mtype m2)" "s\<lparr>xstate := x2\<rparr>"] e wf2
    by (simp add: enc_offset_loop_eq)
  have eq4: "map ?fld (joint m4) = map ?fld (joint m3)"
    using f [unfolded mkeeps_def, rule_format, of m3 "xstate s3"] by (simp only: fc fst_conv)
  have k3: "k < length (joint m3)" using k len3 by simp
  have f4: "?fld (joint m4 ! k) = ?fld (joint m3 ! k)"
    by (rule nth_of_map_eq [OF eq4 k3])
  have o4: "enc_offset (joint m4 ! k) = enc_offset_of E (mtype m2) (joint m2 ! k)"
    using f4 o3 by simp
  have "enc_offset_of E (mtype m2) (joint m4 ! k) = enc_offset_of E (mtype m2) (joint m2 ! k)"
    using f4 f3 by (intro enc_offset_of_cong) simp_all
  with o4 show ?thesis by (simp add: res ic)
qed

text \<open>
  C3, amended. \<open>enc_offset\<close> is an integer: the value that the second loop of
  \<^verbatim>\<open>set_joints_known_pos\<close> stores is the \<^verbatim>\<open>float\<close> \<open>sign * enc_val - mpos_d * cc\<close> converted to
  \<^verbatim>\<open>int\<close>, where \<open>sign\<close> is the polarity flip and \<open>cc\<close> is \<^verbatim>\<open>ENC_CNTS_PER_REV / (2*M_PI)\<close>. With
  the \<^verbatim>\<open>float\<close> operations taken as exact and the conversion truncating towards zero,
  after \<^verbatim>\<open>set_joints_known_pos\<close> the stored offset of every joint of the mechanism is the
  truncation of that value, and the motor position reconstructed as
  \<open>(1 / cc) * (sign * enc_val - enc_offset)\<close> differs from \<open>mpos_d\<close> by less than \<open>1 / cc\<close>,
  the angle of one encoder count, not by at most 1e-5. The statement is for services
  that keep the fields named in the hypotheses.
\<close>

theorem calibration_round_trip:
  assumes wf: "length (joint m) = MAX_DOF_PER_MECH" and k: "k < MAX_DOF_PER_MECH"
    and ex: "exact_floats E"
    and c: "mkeeps type (\<lambda>m. invMechCableCoupling E m 1)"
    and r: "keeps (\<lambda>j. (type j, enc_val j, mpos_d j)) (resetFilter E)"
    and g: "keeps (\<lambda>j. (type j, enc_val j, mpos_d j, enc_offset j)) (getStateLPF E)"
    and f: "mkeeps (\<lambda>j. (type j, enc_val j, mpos_d j, enc_offset j)) (fwdMechCableCoupling E)"
  shows "let a = mtype (fst (invMechCableCoupling E
                         (m\<lparr>joint := map (set_jpos_ref E tool_only) (joint m)\<rparr>) 1 (xstate s)));
             j = joint (fst (set_joints_known_pos E tool_only (m, s))) ! k;
             sign = (if enc_reversed E a j then - 1 else 1)
         in enc_offset j = trunc (sign * of_int (enc_val j) - mpos_d j * cc E)
            \<and> \<bar>(1 / cc E) * (sign * of_int (enc_val j) - of_int (enc_offset j)) - mpos_d j\<bar>
                < 1 / cc E"
proof -
  let ?a = "mtype (fst (invMechCableCoupling E
                         (m\<lparr>joint := map (set_jpos_ref E tool_only) (joint m)\<rparr>) 1 (xstate s)))"
  let ?j = "joint (fst (set_joints_known_pos E tool_only (m, s))) ! k"
  have o: "enc_offset ?j = enc_offset_of E ?a ?j"
    by (rule calibrated_joint [OF wf k c r g f])
  show ?thesis
    unfolding Let_def
    using round_trip_exact [OF ex, of ?a ?j] enc_offset_of_exact [OF ex, of ?a ?j]
    by (simp only: o)
qed

lemma E_D_fields:
  "DOF_types E_D t = \<lparr>home_position = 0, max_position = 1 / 10\<rparr>"
  "cc E_D = 4096 / (2 * (355 / 113))"
  "RAVEN_II_SQUARE E_D = False" "is_toolDOF E_D t = (4 \<le> t mod 8)"
  "invMechCableCoupling E_D m r x = (couple m, x)"
  "resetFilter E_D j x = (j, x)" "getStateLPF E_D j x = (j, x)" "fwdMechCableCoupling E_D m x = (m, x)"
  "f_of_int E_D n = of_int n" "f_dec E_D n k' = of_int n / 10 ^ k'"
  "f_mul E_D u v = u * v" "f_sub E_D u v = u - v" "f_to_int E_D u = trunc u"
  by (simp_all add: E_D_def E0_fields)

text \<open>
  C3 as stated fails. Scenario D: the shoulder of a gold arm, with \<open>enc_val\<close> = 5000, is
  calibrated (its state becomes \<open>homing1\<close>) at \<open>mpos_d\<close> = 0.1, with 4096 counts per
  revolution (the environment takes 355/113 for pi). The stored \<open>enc_offset\<close> is the
  integer -5065, not -5000 - 0.1 * (4096 / 2pi), and the reconstructed motor position
  differs from \<open>mpos_d\<close> by more than 1e-5.
\<close>

theorem calibration_round_trip_counterexample:
  "mtype M_D = GOLD_ARM \<and> \<not> is_toolDOF E_D (type (joint M_D ! SHOULDER))
   \<and> enc_val (joint (fst (set_joints_known_pos E_D 0 (M_D, hstate0))) ! SHOULDER) = 5000
   \<and> mpos_d (joint (fst (set_joints_known_pos E_D 0 (M_D, hstate0))) ! SHOULDER) = 1 / 10
   \<and> state (joint (fst (set_joints_known_pos E_D 0 (M_D, hstate0))) ! SHOULDER) = jstate_homing1
   \<and> enc_offset (joint (fst (set_joints_known_pos E_D 0 (M_D, hstate0))) ! SHOULDER) = - 5065
   \<and> real_of_int (- 5065) \<noteq> - 5000 - (1 / 10) * cc E_D
   \<and> 1 / 100000 < \<bar>(1 / cc E_D) * (- 1 * 5000 - real_of_int (- 5065)) - 1 / 10\<bar>"
  by (simp add: M_D_def gold_mech_def SHOULDER_def E_D_fields
        set_joints_known_pos_def jpos_ref_loop_def enc_offset_loop_def loop_over_mech_joints_def
        on_joint_def set_jpos_ref_def set_enc_offset_def enc_offset_of_def enc_reversed_def
        MAX_DOF_PER_MECH_def couple_def trunc_def dof_def hstate0_def upt8
        del: upt_rec_numeral cong: prod.case_cong_weak)

theorem calibration_round_trip_witness:
  "length (joint M_D) = MAX_DOF_PER_MECH \<and> SHOULDER < MAX_DOF_PER_MECH \<and> exact_floats E_D
   \<and> mkeeps type (\<lambda>m. invMechCableCoupling E_D m 1)
   \<and> keeps (\<lambda>j. (type j, enc_val j, mpos_d j)) (resetFilter E_D)
   \<and> keeps (\<lambda>j. (type j, enc_val j, mpos_d j, enc_offset j)) (getStateLPF E_D)
   \<and> mkeeps (\<lambda>j. (type j, enc_val j, mpos_d j, enc_offset j)) (fwdMechCableCoupling E_D)
   \<and> \<bar>(1 / cc E_D) * (- 1 * real_of_int (enc_val (joint (fst (set_joints_known_pos E_D 0 (M_D, hstate0))) ! SHOULDER))
          - real_of_int (enc_offset (joint (fst (set_joints_known_pos E_D 0 (M_D, hstate0))) ! SHOULDER)))
        - mpos_d (joint (fst (set_joints_known_pos E_D 0 (M_D, hstate0))) ! SHOULDER)\<bar> < 1 / cc E_D"
proof -
  have wf: "length (joint M_D) = MAX_DOF_PER_MECH"
    by (simp add: M_D_def gold_mech_def MAX_DOF_PER_MECH_def)
  have k: "SHOULDER < MAX_DOF_PER_MECH" by (simp add: MAX_DOF_PER_MECH_def SHOULDER_def)
  have ex: "exact_floats E_D" by (simp add: exact_floats_def E_D_fields)
  have c: "mkeeps type (\<lambda>m. invMechCableCoupling E_D m 1)"
    by (simp add: mkeeps_def E_D_fields couple_def comp_def)
  have r: "keeps (\<lambda>j. (type j, enc_val j, mpos_d j)) (resetFilter E_D)"
    by (simp add: keeps_def E_D_fields)
  have g: "keeps (\<lambda>j. (type j, enc_val j, mpos_d j, enc_offset j)) (getStateLPF E_D)"
    by (simp add: keeps_def E_D_fields)
  have f: "mkeeps (\<lambda>j. (type j, enc_val j, mpos_d j, enc_offset j)) (fwdMechCableCoupling E_D)"
    by (simp add: mkeeps_def E_D_fields)
  let ?a = "mtype (fst (invMechCableCoupling E_D
              (M_D\<lparr>joint := map (set_jpos_ref E_D 0) (joint M_D)\<rparr>) 1 (xstate hstate0)))"
  let ?j = "joint (fst (set_joints_known_pos E_D 0 (M_D, hstate0))) ! SHOULDER"
  have a: "?a = GOLD_ARM"
    by (simp add: E_D_fields couple_def M_D_def gold_mech_def)
  have rev: "enc_reversed E_D ?a ?j"
    by (simp add: enc_reversed_def E_D_fields couple_def M_D_def gold_mech_def)
  have "\<bar>(1 / cc E_D) * (- 1 * real_of_int (enc_val ?j) - real_of_int (enc_offset ?j))
          - mpos_d ?j\<bar> < 1 / cc E_D"
    using calibration_round_trip [OF wf k ex c r g f, of 0 hstate0, unfolded Let_def, THEN conjunct2]
    by (simp only: rev if_True)
  with wf k ex c r g f show ?thesis by (intro conjI)
qed

end
